theory Spec2Isabelle
  imports Complex_Main "HOL-Library.Multiset" "HOL-Library.AList"
begin

section \<open>Numeric values\<close>

text \<open>
  The tables of the program hold 64-bit floating point numbers. A cell is modelled as a
  real number or one of the three special values; arithmetic on finite cells is exact
  (rounding and overflow of the machine format are not modelled), arithmetic with the
  special values follows IEEE 754, which is what numpy and pandas compute.
\<close>

datatype fval = Fin real | PInf | NInf | NaN

fun is_finite :: "fval \<Rightarrow> bool" where
  "is_finite (Fin r) = True"
| "is_finite v = False"

fun isna :: "fval \<Rightarrow> bool" where
  "isna NaN = True"
| "isna v = False"

fun fneg :: "fval \<Rightarrow> fval" where
  "fneg (Fin r) = Fin (- r)"
| "fneg PInf = NInf"
| "fneg NInf = PInf"
| "fneg NaN = NaN"

fun fabs :: "fval \<Rightarrow> fval" where
  "fabs (Fin r) = Fin \<bar>r\<bar>"
| "fabs PInf = PInf"
| "fabs NInf = PInf"
| "fabs NaN = NaN"

fun fadd :: "fval \<Rightarrow> fval \<Rightarrow> fval" where
  "fadd NaN y = NaN"
| "fadd x NaN = NaN"
| "fadd (Fin a) (Fin b) = Fin (a + b)"
| "fadd PInf NInf = NaN"
| "fadd NInf PInf = NaN"
| "fadd PInf y = PInf"
| "fadd NInf y = NInf"
| "fadd (Fin a) y = y"

definition fsub :: "fval \<Rightarrow> fval \<Rightarrow> fval" where
  "fsub x y = fadd x (fneg y)"

fun fmul :: "fval \<Rightarrow> fval \<Rightarrow> fval" where
  "fmul NaN y = NaN"
| "fmul x NaN = NaN"
| "fmul (Fin a) (Fin b) = Fin (a * b)"
| "fmul (Fin a) PInf = (if a = 0 then NaN else if 0 < a then PInf else NInf)"
| "fmul (Fin a) NInf = (if a = 0 then NaN else if 0 < a then NInf else PInf)"
| "fmul PInf (Fin b) = (if b = 0 then NaN else if 0 < b then PInf else NInf)"
| "fmul NInf (Fin b) = (if b = 0 then NaN else if 0 < b then NInf else PInf)"
| "fmul PInf PInf = PInf"
| "fmul PInf NInf = NInf"
| "fmul NInf PInf = NInf"
| "fmul NInf NInf = PInf"

text \<open>
  Division of table columns never raises: a zero divisor gives an infinity, or NaN for
  \<open>0 / 0\<close> (the sign of a zero divisor is not modelled, it is taken as positive).
\<close>

fun fdiv :: "fval \<Rightarrow> fval \<Rightarrow> fval" where
  "fdiv NaN y = NaN"
| "fdiv x NaN = NaN"
| "fdiv (Fin a) (Fin b) =
     (if b = 0 then (if a = 0 then NaN else if 0 < a then PInf else NInf)
      else Fin (a / b))"
| "fdiv (Fin a) PInf = Fin 0"
| "fdiv (Fin a) NInf = Fin 0"
| "fdiv PInf (Fin b) = (if 0 \<le> b then PInf else NInf)"
| "fdiv NInf (Fin b) = (if 0 \<le> b then NInf else PInf)"
| "fdiv PInf y = NaN"
| "fdiv NInf y = NaN"

text \<open>Comparison of cells; every comparison with NaN is false.\<close>

fun flt :: "fval \<Rightarrow> fval \<Rightarrow> bool" where
  "flt NaN y = False"
| "flt x NaN = False"
| "flt (Fin a) (Fin b) = (a < b)"
| "flt (Fin a) PInf = True"
| "flt NInf (Fin b) = True"
| "flt NInf PInf = True"
| "flt x y = False"

definition fgt :: "fval \<Rightarrow> fval \<Rightarrow> bool" where
  "fgt x y = flt y x"

text \<open>\<open>np.nan_to_num(m, nan=0.0, posinf=999999, neginf=-999999)\<close>, cell by cell.\<close>

fun nan_to_num :: "fval \<Rightarrow> real" where
  "nan_to_num (Fin r) = r"
| "nan_to_num NaN = 0"
| "nan_to_num PInf = 999999"
| "nan_to_num NInf = - 999999"

section \<open>Errors and console output\<close>

datatype py_error = IndexError | KeyError | ValueError

text \<open>What the program prints, as data: one constructor for each message of the source.\<close>

datatype message =
    MissingColumnsWarning "string list" string
  | ErrorProcessing string
  | DriverNotFoundWarning string
  | LoadedSamples nat string
  | FailedToProcess string
  | SuccessfullyLoaded nat nat
  | NoValidData string
  | ClusteringSummary string nat nat
  | NotEnoughDriversWarning
  | DataLoadedSuccessfully nat
  | InsufficientDataSkipping string
  | DriversAnalyzed nat
  | InsufficientInsights
  | MostSimilarStyles string string real

section \<open>Tables and the column operations of the table library\<close>

text \<open>
  A parsed CSV file is a table with named columns, looked up by name at run time: an
  association list from column names to columns. The columns of one table have the same
  length, which \<open>frame_ok\<close> states.
\<close>

type_synonym column = "fval list"
type_synonym dataframe = "(string \<times> column) list"

definition has_column :: "dataframe \<Rightarrow> string \<Rightarrow> bool" where
  "has_column df c = (map_of df c \<noteq> None)"

fun frame_len :: "dataframe \<Rightarrow> nat" where
  "frame_len [] = 0"
| "frame_len ((c, v) # df) = length v"

definition frame_ok :: "dataframe \<Rightarrow> bool" where
  "frame_ok df = list_all (\<lambda>(c, v). length v = frame_len df) df"

text \<open>\<open>df[c]\<close> raises \<open>KeyError\<close> for a column that is not there.\<close>

definition get_column :: "dataframe \<Rightarrow> string \<Rightarrow> py_error + column" where
  "get_column df c = (case map_of df c of None \<Rightarrow> Inl KeyError | Some v \<Rightarrow> Inr v)"

text \<open>
  \<open>astype(int)\<close> truncates towards zero and raises on a missing or infinite cell (the
  range of the 64-bit integers is not modelled).
\<close>

definition trunc :: "real \<Rightarrow> real" where
  "trunc r = (if 0 \<le> r then of_int \<lfloor>r\<rfloor> else of_int \<lceil>r\<rceil>)"

definition astype_int :: "column \<Rightarrow> py_error + column" where
  "astype_int v =
     (if list_all is_finite v then Inr (map (\<lambda>x. Fin (trunc (nan_to_num x))) v)
      else Inl ValueError)"

text \<open>\<open>Series.diff()\<close>: the first cell is missing, each other cell is the change from
  the cell before it.\<close>

definition diff :: "column \<Rightarrow> column" where
  "diff xs = (case xs of [] \<Rightarrow> [] | x # rest \<Rightarrow> NaN # map2 fsub rest xs)"

definition fillna :: "fval \<Rightarrow> column \<Rightarrow> column" where
  "fillna v xs = map (\<lambda>x. if isna x then v else x) xs"

text \<open>
  The standard deviation of the table library, with one degree of freedom removed:
  missing cells are skipped, fewer than two observations give NaN, and so does an
  infinite observation.
\<close>

definition observations :: "column \<Rightarrow> column" where
  "observations xs = filter (\<lambda>x. \<not> isna x) xs"

definition mean_real :: "real list \<Rightarrow> real" where
  "mean_real rs = sum_list rs / real (length rs)"

definition std_real :: "real list \<Rightarrow> real" where
  "std_real rs = sqrt (sum_list (map (\<lambda>r. (r - mean_real rs)\<^sup>2) rs) / (real (length rs) - 1))"

definition pd_std :: "column \<Rightarrow> fval" where
  "pd_std xs =
     (let obs = observations xs in
      if length obs < 2 then NaN
      else if list_all is_finite obs then Fin (std_real (map nan_to_num obs))
      else NaN)"

text \<open>
  \<open>rolling(w, min_periods=m).std()\<close>: cell \<open>i\<close> is computed from the \<open>w\<close> cells ending
  at \<open>i\<close> (fewer at the start of the column) and is missing when the window holds fewer
  than \<open>m\<close> observations.
\<close>

definition window :: "nat \<Rightarrow> column \<Rightarrow> nat \<Rightarrow> column" where
  "window w xs i = drop (Suc i - w) (take (Suc i) xs)"

definition rolling_std :: "nat \<Rightarrow> nat \<Rightarrow> column \<Rightarrow> column" where
  "rolling_std w m xs =
     map (\<lambda>i. if length (observations (window w xs i)) < m then NaN
               else pd_std (window w xs i))
         [0 ..< length xs]"

section \<open>The feature engineer\<close>

record telemetry_features =
  RPM :: fval
  Speed :: fval
  nGear :: fval
  Throttle :: fval
  nBrake :: fval
  ThrottleRate :: fval
  BrakeIntensity :: fval
  GearEfficiency :: fval
  SpeedVariability :: fval
  Acceleration :: fval

record feature_row = telemetry_features +
  Driver :: string
  Team :: string

definition TEAMS :: "(string \<times> string list) list" where
  "TEAMS =
     [(''Williams'', [''ALB'', ''SAI'']),
      (''Mercedes'', [''ANT'', ''RUS'']),
      (''Ferrari'', [''HAM'', ''LEC'']),
      (''RedBull'', [''VER'', ''TSU'']),
      (''McLaren'', [''PIA'', ''NOR''])]"

definition get_driver_team :: "string \<Rightarrow> string \<times> message list" where
  "get_driver_team driver_code =
     (case find (\<lambda>(team, drivers). driver_code \<in> set drivers) TEAMS of
        Some (team, drivers) \<Rightarrow> (team, [])
      | None \<Rightarrow> (''Unknown'', [DriverNotFoundWarning driver_code]))"

text \<open>
  The first step of \<open>process_driver_telemetry\<close>: a \<open>Brake\<close> column is converted to the
  integer column \<open>nBrake\<close> and dropped; without \<open>Brake\<close> and without \<open>nBrake\<close> the column
  \<open>nBrake\<close> is created with \<open>0\<close> in every row.
\<close>

definition brake_step :: "dataframe \<Rightarrow> py_error + dataframe" where
  "brake_step df =
     (if has_column df ''Brake'' then
        (case get_column df ''Brake'' of
           Inl e \<Rightarrow> Inl e
         | Inr b \<Rightarrow>
             (case astype_int b of
                Inl e \<Rightarrow> Inl e
              | Inr nb \<Rightarrow> Inr (AList.delete ''Brake'' (AList.update ''nBrake'' nb df))))
      else if \<not> has_column df ''nBrake'' then
        Inr (AList.update ''nBrake'' (replicate (frame_len df) (Fin 0)) df)
      else Inr df)"

definition columns_to_drop :: "string list" where
  "columns_to_drop = [''Date'', ''Time'', ''SessionTime'', ''Source'']"

definition drop_optional :: "dataframe \<Rightarrow> dataframe" where
  "drop_optional df =
     fold (\<lambda>col d. if has_column d col then AList.delete col d else d) columns_to_drop df"

definition required_cols :: "string list" where
  "required_cols = [''RPM'', ''Speed'', ''nGear'', ''Throttle'']"

definition missing_cols :: "dataframe \<Rightarrow> string list" where
  "missing_cols df_clean = filter (\<lambda>col. \<not> has_column df_clean col) required_cols"

text \<open>
  The ten columns of the frame \<open>features\<close>, row by row. The derived columns are computed
  on the whole columns of the cleaned table, before any row is dropped.
\<close>

definition features_frame ::
  "column \<Rightarrow> column \<Rightarrow> column \<Rightarrow> column \<Rightarrow> column \<Rightarrow> telemetry_features list" where
  "features_frame rpm speed gear throttle brake =
     (let throttle_rate = fillna (Fin 0) (map fabs (diff throttle));
          brake_intensity = map2 fmul brake speed;
          gear_efficiency = map2 fdiv rpm (map (\<lambda>g. fadd g (Fin 1)) gear);
          speed_variability = fillna (Fin 0) (rolling_std 10 1 speed);
          acceleration = fillna (Fin 0) (diff speed)
      in map (\<lambda>i. \<lparr> RPM = rpm ! i, Speed = speed ! i, nGear = gear ! i,
                     Throttle = throttle ! i, nBrake = brake ! i,
                     ThrottleRate = throttle_rate ! i,
                     BrakeIntensity = brake_intensity ! i,
                     GearEfficiency = gear_efficiency ! i,
                     SpeedVariability = speed_variability ! i,
                     Acceleration = acceleration ! i \<rparr>)
             [0 ..< length rpm])"

text \<open>\<open>replace([inf, -inf], nan).dropna()\<close> keeps the rows whose ten cells are all finite.\<close>

definition row_finite :: "'a telemetry_features_scheme \<Rightarrow> bool" where
  "row_finite r =
     (is_finite (RPM r) \<and> is_finite (Speed r) \<and> is_finite (nGear r) \<and>
      is_finite (Throttle r) \<and> is_finite (nBrake r) \<and> is_finite (ThrottleRate r) \<and>
      is_finite (BrakeIntensity r) \<and> is_finite (GearEfficiency r) \<and>
      is_finite (SpeedVariability r) \<and> is_finite (Acceleration r))"

definition dropna :: "telemetry_features list \<Rightarrow> telemetry_features list" where
  "dropna rows = filter row_finite rows"

definition add_metadata :: "string \<Rightarrow> string \<Rightarrow> telemetry_features \<Rightarrow> feature_row" where
  "add_metadata driver team r = telemetry_features.extend r (feature_row.fields driver team)"

text \<open>
  The body of the \<open>try\<close> block, from the parsed table on. An exception raised in it is the
  value \<open>Inl\<close>; the result \<open>None\<close> is the early return for missing columns.
\<close>

definition process_body ::
  "dataframe \<Rightarrow> string \<Rightarrow> py_error + (feature_row list option \<times> message list)" where
  "process_body df driver_code =
     (case brake_step df of
        Inl e \<Rightarrow> Inl e
      | Inr df1 \<Rightarrow>
          (let df_clean = drop_optional df1 in
           if missing_cols df_clean \<noteq> [] then
             Inr (None, [MissingColumnsWarning (missing_cols df_clean) driver_code])
           else
             (case (get_column df_clean ''RPM'', get_column df_clean ''Speed'',
                    get_column df_clean ''nGear'', get_column df_clean ''Throttle'',
                    get_column df_clean ''nBrake'') of
                (Inr rpm, Inr speed, Inr gear, Inr throttle, Inr brake) \<Rightarrow>
                  (let features = dropna (features_frame rpm speed gear throttle brake);
                       (team, warnings) = get_driver_team driver_code
                   in Inr (Some (map (add_metadata driver_code team) features), warnings))
              | _ \<Rightarrow> Inl KeyError)))"

text \<open>
  \<open>process_driver_telemetry\<close>: the argument \<open>csv\<close> is what \<open>pd.read_csv(filepath)\<close>
  gives, \<open>None\<close> when reading raises. Every exception is caught, reported, and turned
  into the result \<open>None\<close>.
\<close>

definition process_driver_telemetry ::
  "dataframe option \<Rightarrow> string \<Rightarrow> feature_row list option \<times> message list" where
  "process_driver_telemetry csv driver_code =
     (case csv of
        None \<Rightarrow> (None, [ErrorProcessing driver_code])
      | Some df \<Rightarrow>
          (case process_body df driver_code of
             Inl e \<Rightarrow> (None, [ErrorProcessing driver_code])
           | Inr result \<Rightarrow> result))"

text \<open>
  The loop of \<open>load_track_data\<close> over the CSV files of a track. Each file is given by
  the driver code taken from its name and by its parsed content; a driver whose file
  gives \<open>None\<close> or no rows is reported and left out, and the loop goes on.
\<close>

fun load_loop ::
  "(string \<times> dataframe option) list \<Rightarrow> feature_row list list \<times> message list" where
  "load_loop [] = ([], [])"
| "load_loop ((driver_code, csv) # files) =
     (let (driver_data, out) = process_driver_telemetry csv driver_code;
          (all_data, rest) = load_loop files
      in case driver_data of
           None \<Rightarrow> (all_data, out @ [FailedToProcess driver_code] @ rest)
         | Some rows \<Rightarrow>
             if length rows > 0 then
               (rows # all_data, out @ [LoadedSamples (length rows) driver_code] @ rest)
             else (all_data, out @ [FailedToProcess driver_code] @ rest))"

text \<open>
  \<open>load_track_data\<close>, first component of its result. The directory of the track is an
  input: \<open>None\<close> when the path does not exist, otherwise the files found there.
\<close>

definition load_track_data ::
  "(string \<times> dataframe option) list option \<Rightarrow> string \<Rightarrow> feature_row list option \<times> message list" where
  "load_track_data listing race_location =
     (case listing of
        None \<Rightarrow> (None, [])
      | Some files \<Rightarrow>
          if files = [] then (None, [])
          else
            (let (all_data, out) = load_loop files in
             if all_data \<noteq> [] then
               (Some (concat all_data),
                out @ [SuccessfullyLoaded (length all_data) (length (concat all_data))])
             else (None, out @ [NoValidData race_location])))"

section \<open>The insight reporter: the most similar pair\<close>

text \<open>
  \<open>similarity_matrix[i][j]\<close> on a two-dimensional array; an index out of range raises
  \<open>IndexError\<close>.
\<close>

definition cell :: "real list list \<Rightarrow> nat \<Rightarrow> nat \<Rightarrow> py_error + real" where
  "cell m i j =
     (if i < length m then
        (if j < length (m ! i) then Inr (m ! i ! j) else Inl IndexError)
      else Inl IndexError)"

text \<open>A \<open>for\<close> loop whose body may raise: the first error ends the loop.\<close>

fun for_loop :: "('a \<Rightarrow> 's \<Rightarrow> py_error + 's) \<Rightarrow> 'a list \<Rightarrow> 's \<Rightarrow> py_error + 's" where
  "for_loop body [] s = Inr s"
| "for_loop body (x # xs) s =
     (case body x s of Inl e \<Rightarrow> Inl e | Inr s' \<Rightarrow> for_loop body xs s')"

text \<open>
  The loop state of \<open>print_analysis_insights\<close>: \<open>max_similarity\<close> and
  \<open>most_similar_pair\<close>, which start as \<open>0\<close> and \<open>None\<close>.
\<close>

type_synonym pair_state = "real \<times> (string \<times> string) option"

definition pair_body ::
  "real list list \<Rightarrow> string list \<Rightarrow> nat \<Rightarrow> nat \<Rightarrow> pair_state \<Rightarrow> py_error + pair_state" where
  "pair_body sm drivers i j st =
     (case cell sm i j of
        Inl e \<Rightarrow> Inl e
      | Inr similarity \<Rightarrow>
          if similarity > fst st then Inr (similarity, Some (drivers ! i, drivers ! j))
          else Inr st)"

definition most_similar_pair ::
  "real list list \<Rightarrow> string list \<Rightarrow> py_error + pair_state" where
  "most_similar_pair sm drivers =
     for_loop
       (\<lambda>i. for_loop (pair_body sm drivers i) [i + 1 ..< length drivers])
       [0 ..< length drivers]
       (0, None)"

text \<open>\<open>similarity_matrix.size\<close>: the number of cells.\<close>

definition matrix_size :: "real list list \<Rightarrow> nat" where
  "matrix_size m = sum_list (map length m)"

text \<open>
  \<open>print_analysis_insights\<close> up to the report of the pair (the ranking of the drivers by
  throttle use that follows it prints two more lines and is not modelled; it raises
  nothing, its own errors are caught).
\<close>

definition print_analysis_insights ::
  "real list list \<Rightarrow> string list \<Rightarrow> py_error + message list" where
  "print_analysis_insights sm drivers =
     (if matrix_size sm = 0 \<or> length drivers < 2 then
        Inr [DriversAnalyzed (length drivers), InsufficientInsights]
      else case most_similar_pair sm drivers of
             Inl e \<Rightarrow> Inl e
           | Inr (max_similarity, None) \<Rightarrow> Inr [DriversAnalyzed (length drivers)]
           | Inr (max_similarity, Some (a, b)) \<Rightarrow>
               Inr [DriversAnalyzed (length drivers), MostSimilarStyles a b max_similarity])"

section \<open>The sample balancer and cluster engine\<close>

record clustered_row = feature_row +
  Cluster :: int

text \<open>\<open>Series.unique()\<close>: the distinct values in the order of their first appearance.\<close>

definition unique :: "'a list \<Rightarrow> 'a list" where
  "unique xs = rev (remdups (rev xs))"

text \<open>
  \<open>DataFrame.sample(n, random_state=42)\<close> draws without replacement: it takes the rows
  at the first \<open>n\<close> positions of a permutation of the row positions, drawn by a generator
  created from the seed for this call. The permutation drawn for a table of \<open>L\<close> rows
  is the parameter \<open>perm L\<close>. A negative \<open>n\<close> and an \<open>n\<close> beyond the number of rows
  raise.
\<close>

definition sample :: "(nat \<Rightarrow> nat list) \<Rightarrow> int \<Rightarrow> 'a list \<Rightarrow> py_error + 'a list" where
  "sample perm n rows =
     (if n < 0 \<or> int (length rows) < n then Inl ValueError
      else let positions = take (nat n) (perm (length rows)) in
           if list_all (\<lambda>i. i < length rows) positions
           then Inr (map (\<lambda>i. rows ! i) positions)
           else Inl IndexError)"

text \<open>
  The body of the loop over the drivers: the rows of one driver, sampled when there are
  more than \<open>n_samples_per_driver\<close> of them.
\<close>

definition sample_driver ::
  "(nat \<Rightarrow> nat list) \<Rightarrow> feature_row list \<Rightarrow> int \<Rightarrow> string \<Rightarrow> py_error + feature_row list" where
  "sample_driver perm data n driver =
     (let driver_data = filter (\<lambda>r. Driver r = driver) data in
      if int (length driver_data) > n then sample perm n driver_data else Inr driver_data)"

text \<open>The loop, which collects \<open>sampled_data\<close>.\<close>

fun sample_drivers ::
  "(nat \<Rightarrow> nat list) \<Rightarrow> feature_row list \<Rightarrow> int \<Rightarrow> string list \<Rightarrow>
   py_error + feature_row list list" where
  "sample_drivers perm data n [] = Inr []"
| "sample_drivers perm data n (driver # drivers) =
     (case sample_driver perm data n driver of
        Inl e \<Rightarrow> Inl e
      | Inr driver_sample \<Rightarrow>
          (case sample_drivers perm data n drivers of
             Inl e \<Rightarrow> Inl e
           | Inr sampled \<Rightarrow> Inr (driver_sample # sampled)))"

text \<open>\<open>pd.concat\<close> raises on an empty list of tables.\<close>

definition pd_concat :: "'a list list \<Rightarrow> py_error + 'a list" where
  "pd_concat tables = (if tables = [] then Inl ValueError else Inr (concat tables))"

text \<open>The ten feature columns of a row, in the order of \<open>FEATURE_COLUMNS\<close>.\<close>

definition feature_values :: "'a telemetry_features_scheme \<Rightarrow> fval list" where
  "feature_values r =
     [RPM r, Speed r, nGear r, Throttle r, nBrake r, ThrottleRate r, BrakeIntensity r,
      GearEfficiency r, SpeedVariability r, Acceleration r]"

text \<open>
  \<open>StandardScaler().fit_transform\<close>: every column is shifted by its mean and divided by
  its standard deviation (no degree of freedom removed); a column of standard deviation
  \<open>0\<close> is divided by \<open>1\<close>.
\<close>

definition column_of :: "real list list \<Rightarrow> nat \<Rightarrow> real list" where
  "column_of m j = map (\<lambda>row. row ! j) m"

definition variance :: "real list \<Rightarrow> real" where
  "variance rs = sum_list (map (\<lambda>r. (r - mean_real rs)\<^sup>2) rs) / real (length rs)"

definition scale_of :: "real list \<Rightarrow> real" where
  "scale_of rs = (if sqrt (variance rs) = 0 then 1 else sqrt (variance rs))"

definition fit_transform :: "real list list \<Rightarrow> real list list" where
  "fit_transform m =
     map (\<lambda>row. map (\<lambda>j. (row ! j - mean_real (column_of m j)) / scale_of (column_of m j))
                     [0 ..< length row]) m"

definition TRACK_CLUSTERING_PARAMS :: "(string \<times> real \<times> nat) list" where
  "TRACK_CLUSTERING_PARAMS =
     [(''Australia'', 4 / 10, 40),
      (''Bahrain'', 35 / 100, 50),
      (''China'', 45 / 100, 45),
      (''Japan'', 4 / 10, 35)]"

definition DEFAULT_CLUSTERING_PARAMS :: "real \<times> nat" where
  "DEFAULT_CLUSTERING_PARAMS = (4 / 10, 45)"

definition clustering_params :: "string \<Rightarrow> real \<times> nat" where
  "clustering_params track_name =
     (case map_of TRACK_CLUSTERING_PARAMS track_name of
        Some params \<Rightarrow> params
      | None \<Rightarrow> DEFAULT_CLUSTERING_PARAMS)"

definition with_cluster :: "feature_row \<Rightarrow> int \<Rightarrow> clustered_row" where
  "with_cluster r c = feature_row.extend r (clustered_row.fields c)"

text \<open>
  \<open>cluster_track_data\<close>. The clustering itself is the library's: \<open>dbscan eps min_samples m\<close>
  stands for \<open>DBSCAN(eps, min_samples).fit_predict(m)\<close>, the labels of the rows of \<open>m\<close>.
  Assigning a column of another length than the table raises.
\<close>

definition cluster_track_data ::
  "(nat \<Rightarrow> nat list) \<Rightarrow> (real \<Rightarrow> nat \<Rightarrow> real list list \<Rightarrow> int list) \<Rightarrow>
   feature_row list \<Rightarrow> string \<Rightarrow> int \<Rightarrow> py_error + (clustered_row list \<times> message list)" where
  "cluster_track_data perm dbscan data track_name n_samples_per_driver =
     (case sample_drivers perm data n_samples_per_driver (unique (map Driver data)) of
        Inl e \<Rightarrow> Inl e
      | Inr sampled_data \<Rightarrow>
          (case pd_concat sampled_data of
             Inl e \<Rightarrow> Inl e
           | Inr clustered_data \<Rightarrow>
               (let features_matrix = map (\<lambda>r. map nan_to_num (feature_values r)) clustered_data;
                    features_scaled = fit_transform features_matrix;
                    (eps, min_samples) = clustering_params track_name;
                    clusters = dbscan eps min_samples features_scaled
                in if length clusters \<noteq> length clustered_data then Inl ValueError
                   else
                     (let n_clusters = length (remdups clusters)
                                        - (if - 1 \<in> set clusters then 1 else 0);
                          n_noise = count_list clusters (- 1)
                      in Inr (map2 with_cluster clustered_data clusters,
                              [ClusteringSummary track_name n_clusters n_noise])))))"


section \<open>The profile aggregator\<close>

text \<open>
  The aggregates of the table library skip missing cells; over no observation the
  mean, the maximum and the quantile are NaN.
\<close>

definition pd_mean :: "column \<Rightarrow> fval" where
  "pd_mean xs =
     (let obs = observations xs in
      if obs = [] then NaN else fdiv (foldl fadd (Fin 0) obs) (Fin (real (length obs))))"

definition fmax :: "fval \<Rightarrow> fval \<Rightarrow> fval" where
  "fmax x y = (if flt x y then y else x)"

definition pd_max :: "column \<Rightarrow> fval" where
  "pd_max xs = (case observations xs of [] \<Rightarrow> NaN | x # rest \<Rightarrow> foldl fmax x rest)"

fun finsert :: "fval \<Rightarrow> fval list \<Rightarrow> fval list" where
  "finsert x [] = [x]"
| "finsert x (y # ys) = (if flt y x then y # finsert x ys else x # y # ys)"

definition fsort :: "fval list \<Rightarrow> fval list" where
  "fsort xs = foldr finsert xs []"

text \<open>
  \<open>Series.quantile(q)\<close> with linear interpolation between the two observations next to
  the position \<open>q (n - 1)\<close> of the sorted observations.
\<close>

definition pd_quantile :: "real \<Rightarrow> column \<Rightarrow> fval" where
  "pd_quantile q xs =
     (let obs = fsort (observations xs) in
      if obs = [] then NaN
      else let h = q * real (length obs - 1);
               lo = nat \<lfloor>h\<rfloor>;
               hi = min (lo + 1) (length obs - 1)
           in fadd (obs ! lo) (fmul (fsub (obs ! hi) (obs ! lo)) (Fin (h - real lo))))"

type_synonym profile = "(string \<times> fval) list"

text \<open>
  The profile of one driver: the dictionary built in the loop of
  \<open>analyze_driving_style_similarity\<close>, in the order of insertion of its keys, with the
  final pass that replaces every NaN value by \<open>0.0\<close>.
\<close>

definition driver_profile :: "'a feature_row_scheme list \<Rightarrow> profile" where
  "driver_profile driver_data =
     (let profile =
            [(''avg_speed'', pd_mean (map Speed driver_data)),
             (''speed_variability'', pd_std (map Speed driver_data)),
             (''max_speed'', pd_max (map Speed driver_data)),
             (''throttle_aggression'', pd_mean (map Throttle driver_data)),
             (''throttle_smoothness'',
                fdiv (Fin 1) (fadd (pd_mean (map ThrottleRate driver_data)) (Fin (1 / 1000)))),
             (''brake_frequency'', pd_mean (map nBrake driver_data)),
             (''brake_intensity'', pd_mean (map BrakeIntensity driver_data)),
             (''gear_efficiency'', pd_mean (map GearEfficiency driver_data)),
             (''acceleration_pattern'', pd_mean (map Acceleration driver_data)),
             (''acceleration_variability'', pd_std (map Acceleration driver_data))];
          low_speed_data =
            filter (\<lambda>r. flt (Speed r) (pd_quantile (3 / 10) (map Speed driver_data))) driver_data;
          high_speed_data =
            filter (\<lambda>r. fgt (Speed r) (pd_quantile (7 / 10) (map Speed driver_data))) driver_data;
          profile = profile @
            [(''cornering_style'',
                if length low_speed_data > 0 then pd_mean (map Throttle low_speed_data)
                else pd_mean (map Throttle driver_data))];
          profile = profile @
            [(''straight_line_style'',
                if length high_speed_data > 0 then pd_mean (map Throttle high_speed_data)
                else pd_mean (map Throttle driver_data))]
      in map (\<lambda>(key, value). (key, if isna value then Fin 0 else value)) profile)"

text \<open>The twelve keys of a profile, in the order of their insertion.\<close>

definition profile_keys :: "string list" where
  "profile_keys =
     [''avg_speed'', ''speed_variability'', ''max_speed'', ''throttle_aggression'',
      ''throttle_smoothness'', ''brake_frequency'', ''brake_intensity'', ''gear_efficiency'',
      ''acceleration_pattern'', ''acceleration_variability'', ''cornering_style'',
      ''straight_line_style'']"

text \<open>The loop over the drivers; a driver without rows is skipped.\<close>

fun build_profiles :: "'a feature_row_scheme list \<Rightarrow> string list \<Rightarrow> (string \<times> profile) list" where
  "build_profiles clustered_data [] = []"
| "build_profiles clustered_data (driver # drivers) =
     (let driver_data = filter (\<lambda>r. Driver r = driver) clustered_data in
      if length driver_data = 0 then build_profiles clustered_data drivers
      else (driver, driver_profile driver_data) # build_profiles clustered_data drivers)"

section \<open>The similarity engine\<close>

text \<open>A dictionary lookup raises \<open>KeyError\<close> for a missing key.\<close>

definition lookup :: "('k \<times> 'v) list \<Rightarrow> 'k \<Rightarrow> py_error + 'v" where
  "lookup d k = (case map_of d k of None \<Rightarrow> Inl KeyError | Some v \<Rightarrow> Inr v)"

text \<open>A list comprehension whose element expression may raise.\<close>

fun comprehension :: "('a \<Rightarrow> py_error + 'b) \<Rightarrow> 'a list \<Rightarrow> py_error + 'b list" where
  "comprehension f [] = Inr []"
| "comprehension f (x # xs) =
     (case f x of
        Inl e \<Rightarrow> Inl e
      | Inr y \<Rightarrow> (case comprehension f xs of Inl e \<Rightarrow> Inl e | Inr ys \<Rightarrow> Inr (y # ys)))"

definition dot :: "real list \<Rightarrow> real list \<Rightarrow> real" where
  "dot x y = sum_list (map2 (*) x y)"

text \<open>
  \<open>cosine_similarity\<close> of the library: the rows are divided by their Euclidean norm, a
  row of norm \<open>0\<close> is left as it is, and the result holds the products of the rows.
\<close>

definition normalize_row :: "real list \<Rightarrow> real list" where
  "normalize_row x =
     (let norm = sqrt (dot x x) in map (\<lambda>v. v / (if norm = 0 then 1 else norm)) x)"

definition cosine_similarity :: "real list list \<Rightarrow> real list list" where
  "cosine_similarity m =
     (let normalized = map normalize_row m
      in map (\<lambda>x. map (\<lambda>y. dot x y) normalized) normalized)"

text \<open>
  \<open>euclidean_distances\<close> of the library, on one matrix: the squared distance is
  computed from the products of the rows and cut off at \<open>0\<close>, and the diagonal is
  set to \<open>0\<close>.
\<close>

definition euclidean_distances :: "real list list \<Rightarrow> real list list" where
  "euclidean_distances m =
     map (\<lambda>i. map (\<lambda>j. if i = j then 0
                         else sqrt (max 0 (dot (m ! i) (m ! i) - 2 * dot (m ! i) (m ! j)
                                           + dot (m ! j) (m ! j))))
                   [0 ..< length m])
         [0 ..< length m]"

type_synonym similarity_result =
  "real list list \<times> real list list \<times> string list \<times> (string \<times> profile) list"

text \<open>
  \<open>analyze_driving_style_similarity\<close>: its four results and what it prints. The empty
  array \<open>np.array([])\<close> is the empty list.
\<close>

definition analyze_driving_style_similarity ::
  "'a feature_row_scheme list \<Rightarrow> py_error + (similarity_result \<times> message list)" where
  "analyze_driving_style_similarity clustered_data =
     (let driver_profiles = build_profiles clustered_data (unique (map Driver clustered_data))
      in if length driver_profiles < 2 then
           Inr (([], [], map fst driver_profiles, driver_profiles), [NotEnoughDriversWarning])
         else
           (let drivers = map fst driver_profiles;
                features = map fst (snd (hd driver_profiles))
            in case comprehension
                      (\<lambda>driver. comprehension
                         (\<lambda>feature. case lookup driver_profiles driver of
                                       Inl e \<Rightarrow> Inl e
                                     | Inr p \<Rightarrow> lookup p feature)
                         features)
                      drivers of
                 Inl e \<Rightarrow> Inl e
               | Inr profile_matrix \<Rightarrow>
                   (let profile_matrix = map (map nan_to_num) profile_matrix;
                        profile_matrix_scaled = fit_transform profile_matrix;
                        similarity_matrix = cosine_similarity profile_matrix_scaled;
                        distance_matrix = euclidean_distances profile_matrix_scaled
                    in Inr ((similarity_matrix, distance_matrix, drivers, driver_profiles),
                            []))))"

section \<open>Reference notions for the profile fields\<close>

text \<open>
  The percentile of a list of numbers: the numbers in increasing order, and a linear
  interpolation between the two of them next to the position \<open>q (n - 1)\<close>.
\<close>

definition percentile :: "real \<Rightarrow> real list \<Rightarrow> real" where
  "percentile q rs =
     (let s = sort rs;
          h = q * real (length s - 1);
          lo = nat \<lfloor>h\<rfloor>;
          hi = min (lo + 1) (length s - 1)
      in s ! lo + (s ! hi - s ! lo) * (h - real lo))"

text \<open>The speed and the throttle of a row whose cells are finite.\<close>

definition speed_of :: "'a telemetry_features_scheme \<Rightarrow> real" where
  "speed_of r = nan_to_num (Speed r)"

definition throttle_of :: "'a telemetry_features_scheme \<Rightarrow> real" where
  "throttle_of r = nan_to_num (Throttle r)"

text \<open>
  The standardized profile vectors of the drivers: the values of the profiles, in the
  order of the keys, made finite and rescaled column by column.
\<close>

definition profile_matrix :: "(string \<times> profile) list \<Rightarrow> real list list" where
  "profile_matrix profiles = map (\<lambda>(driver, p). map (\<lambda>(key, v). nan_to_num v) p) profiles"

definition standardized_profiles :: "(string \<times> profile) list \<Rightarrow> real list list" where
  "standardized_profiles profiles = fit_transform (profile_matrix profiles)"

section \<open>The orchestrator\<close>

text \<open>
  The stages that the orchestrator calls, and what a call of the orchestrator leaves
  behind: its result or the exception that ended it, what was printed, and the stages
  that were called, in their order.
\<close>

datatype stage =
    Call_cluster_track_data
  | Call_analyze_driving_style_similarity
  | Call_create_driving_style_visualizations
  | Call_print_analysis_insights

record 'fig outcome =
  result :: "py_error + ('fig option \<times> (string \<times> profile) list option)"
  printed :: "message list"
  invoked :: "stage list"



section \<open>Example inputs\<close>


definition two_sample_frame :: dataframe where
  "two_sample_frame =
     [(''RPM'', [Fin 9000, Fin 10000]),
      (''Speed'', [Fin 100, Fin 100]),
      (''nGear'', [Fin 3, Fin 4]),
      (''Throttle'', [Fin 10, Fin 30]),
      (''Brake'', [Fin 0, Fin 1])]"

definition no_rpm_frame :: dataframe where
  "no_rpm_frame = [(''Speed'', [Fin 100]), (''nGear'', [Fin 3])]"

definition no_brake_frame :: dataframe where
  "no_brake_frame =
     [(''RPM'', [Fin 9000]), (''Speed'', [Fin 100]), (''nGear'', [Fin 3]),
      (''Throttle'', [Fin 10])]"

definition bad_brake_frame :: dataframe where
  "bad_brake_frame = [(''Speed'', [Fin 100]), (''Brake'', [NaN])]"

definition first_row :: feature_row where
  "first_row =
     \<lparr> RPM = Fin 9000, Speed = Fin 100, nGear = Fin 3, Throttle = Fin 10,
       nBrake = Fin 0, ThrottleRate = Fin 0, BrakeIntensity = Fin 0,
       GearEfficiency = Fin 2250, SpeedVariability = Fin 0, Acceleration = Fin 0,
       Driver = ''VER'', Team = ''RedBull'' \<rparr>"

definition second_row :: feature_row where
  "second_row =
     \<lparr> RPM = Fin 10000, Speed = Fin 100, nGear = Fin 4, Throttle = Fin 30,
       nBrake = Fin 1, ThrottleRate = Fin 20, BrakeIntensity = Fin 100,
       GearEfficiency = Fin 2000, SpeedVariability = Fin 0, Acceleration = Fin 0,
       Driver = ''VER'', Team = ''RedBull'' \<rparr>"


text \<open>A feature row with a given driver, speed and throttle.\<close>

definition sample_row :: "string \<Rightarrow> real \<Rightarrow> real \<Rightarrow> feature_row" where
  "sample_row driver speed throttle =
     \<lparr> RPM = Fin 9000, Speed = Fin speed, nGear = Fin 3, Throttle = Fin throttle,
       nBrake = Fin 0, ThrottleRate = Fin 0, BrakeIntensity = Fin 0,
       GearEfficiency = Fin 2250, SpeedVariability = Fin 0, Acceleration = Fin 0,
       Driver = driver, Team = ''RedBull'' \<rparr>"

definition small_table :: "feature_row list" where
  "small_table =
     [sample_row ''VER'' 100 10, sample_row ''NOR'' 90 20, sample_row ''VER'' 110 30,
      sample_row ''VER'' 120 50]"

text \<open>Stand-ins for the library's random permutation and clustering.\<close>

definition reversed_positions :: "nat \<Rightarrow> nat list" where
  "reversed_positions L = rev [0 ..< L]"

definition one_cluster :: "real \<Rightarrow> nat \<Rightarrow> real list list \<Rightarrow> int list" where
  "one_cluster eps min_samples m = replicate (length m) 0"


definition small_clustered :: "clustered_row list" where
  "small_clustered =
     map (\<lambda>r. with_cluster r 0)
       [sample_row ''VER'' 120 50, sample_row ''VER'' 110 30, sample_row ''NOR'' 90 20]"


definition one_driver_table :: "feature_row list" where
  "one_driver_table = [sample_row ''VER'' 100 10]"

definition three_speed_table :: "feature_row list" where
  "three_speed_table =
     [sample_row ''VER'' 100 10, sample_row ''VER'' 110 30, sample_row ''VER'' 120 50]"


text \<open>Two drivers with the same telemetry.\<close>

definition twin_table :: "feature_row list" where
  "twin_table = [sample_row ''VER'' 100 10, sample_row ''NOR'' 100 10]"

definition twin_profile :: profile where
  "twin_profile =
     [(''avg_speed'', Fin 100), (''speed_variability'', Fin 0), (''max_speed'', Fin 100),
      (''throttle_aggression'', Fin 10), (''throttle_smoothness'', Fin 1000),
      (''brake_frequency'', Fin 0), (''brake_intensity'', Fin 0),
      (''gear_efficiency'', Fin 2250), (''acceleration_pattern'', Fin 0),
      (''acceleration_variability'', Fin 0), (''cornering_style'', Fin 10),
      (''straight_line_style'', Fin 10)]"

text \<open>Two drivers with different telemetry.\<close>

definition pair_table :: "feature_row list" where
  "pair_table = [sample_row ''VER'' 100 10, sample_row ''NOR'' 98 12]"

definition pair_profiles :: "(string \<times> profile) list" where
  "pair_profiles =
     [(''VER'',
       [(''avg_speed'', Fin 100), (''speed_variability'', Fin 0), (''max_speed'', Fin 100),
        (''throttle_aggression'', Fin 10), (''throttle_smoothness'', Fin 1000),
        (''brake_frequency'', Fin 0), (''brake_intensity'', Fin 0),
        (''gear_efficiency'', Fin 2250), (''acceleration_pattern'', Fin 0),
        (''acceleration_variability'', Fin 0), (''cornering_style'', Fin 10),
        (''straight_line_style'', Fin 10)]),
      (''NOR'',
       [(''avg_speed'', Fin 98), (''speed_variability'', Fin 0), (''max_speed'', Fin 98),
        (''throttle_aggression'', Fin 12), (''throttle_smoothness'', Fin 1000),
        (''brake_frequency'', Fin 0), (''brake_intensity'', Fin 0),
        (''gear_efficiency'', Fin 2250), (''acceleration_pattern'', Fin 0),
        (''acceleration_variability'', Fin 0), (''cornering_style'', Fin 12),
        (''straight_line_style'', Fin 12)])]"


section \<open>Properties of the feature engineer\<close>

lemma length_diff: "length (diff xs) = length xs"
  by (cases xs) (simp_all add: diff_def)

lemma nth_diff:
  "i < length xs \<Longrightarrow> diff xs ! i = (if i = 0 then NaN else fsub (xs ! i) (xs ! (i - 1)))"
  by (cases xs; cases i) (simp_all add: diff_def)

lemma nth_fillna: "i < length xs \<Longrightarrow> fillna v xs ! i = (if isna (xs ! i) then v else xs ! i)"
  by (simp add: fillna_def)

lemma length_rolling_std: "length (rolling_std w m xs) = length xs"
  by (simp add: rolling_std_def)

lemma nth_rolling_std:
  "i < length xs \<Longrightarrow> rolling_std w m xs ! i =
     (if length (observations (window w xs i)) < m then NaN else pd_std (window w xs i))"
  by (simp add: rolling_std_def)

lemma pd_std_short: "length (observations xs) < 2 \<Longrightarrow> pd_std xs = NaN"
  by (simp add: pd_std_def)

lemma rolling_std_1:
  "i < length xs \<Longrightarrow> rolling_std w (Suc 0) xs ! i = pd_std (window w xs i)"
  by (simp add: nth_rolling_std pd_std_def Let_def)

lemma has_column_update: "has_column (AList.update k v df) c = (c = k \<or> has_column df c)"
  by (auto simp: has_column_def update_conv')

lemma has_column_delete: "has_column (AList.delete k df) c = (c \<noteq> k \<and> has_column df c)"
  by (auto simp: has_column_def delete_conv')

lemma get_column_update: "get_column (AList.update k v df) c = (if c = k then Inr v else get_column df c)"
  by (auto simp: get_column_def update_conv')

lemma get_column_delete: "get_column (AList.delete k df) c = (if c = k then Inl KeyError else get_column df c)"
  by (auto simp: get_column_def delete_conv')

lemma has_column_drop_optional:
  "has_column (drop_optional df) c = (c \<notin> set columns_to_drop \<and> has_column df c)"
  by (auto simp: drop_optional_def columns_to_drop_def has_column_delete)

lemma get_column_drop_optional:
  "c \<notin> set columns_to_drop \<Longrightarrow> get_column (drop_optional df) c = get_column df c"
  by (auto simp: drop_optional_def columns_to_drop_def get_column_delete)

lemma brake_step_required:
  "brake_step df = Inr df1 \<Longrightarrow> c \<in> set required_cols \<Longrightarrow> has_column df1 c = has_column df c"
  by (auto simp: brake_step_def required_cols_def has_column_update has_column_delete
      split: if_splits sum.splits)


lemma missing_cols_clean:
  "brake_step df = Inr df1 \<Longrightarrow> missing_cols (drop_optional df1) = missing_cols df"
  unfolding missing_cols_def
  by (rule filter_cong)
     (auto simp: has_column_drop_optional brake_step_required columns_to_drop_def required_cols_def)

lemma process_body_missing:
  "missing_cols df \<noteq> [] \<Longrightarrow> brake_step df = Inr df1 \<Longrightarrow>
   process_body df code = Inr (None, [MissingColumnsWarning (missing_cols df) code])"
  by (simp add: process_body_def Let_def missing_cols_clean)

lemma process_missing_None:
  "missing_cols df \<noteq> [] \<Longrightarrow> fst (process_driver_telemetry (Some df) code) = None"
  by (cases "brake_step df")
     (simp_all add: process_driver_telemetry_def process_body_def Let_def missing_cols_clean)

lemma load_loop_append:
  "fst (load_loop (xs @ ys)) = fst (load_loop xs) @ fst (load_loop ys)"
  by (induction xs) (auto simp: Let_def split: prod.splits option.splits)

lemma load_loop_skip:
  "fst (process_driver_telemetry csv code) = None \<Longrightarrow>
   fst (load_loop (before @ (code, csv) # after)) = fst (load_loop (before @ after))"
  by (cases "process_driver_telemetry csv code")
     (auto simp: load_loop_append Let_def split: prod.splits option.splits)

lemma load_loop_skip_reported:
  "fst (process_driver_telemetry csv code) = None \<Longrightarrow>
   FailedToProcess code \<in> set (snd (load_loop (before @ (code, csv) # after)))"
  by (cases "process_driver_telemetry csv code"; induction before)
     (auto simp: Let_def split: prod.splits option.splits)

lemma missing_cols_Nil: "missing_cols df = [] \<longleftrightarrow> list_all (has_column df) required_cols"
  by (auto simp: missing_cols_def filter_empty_conv list_all_iff)

lemma get_column_has: "has_column df c \<Longrightarrow> \<exists>v. get_column df c = Inr v"
  by (auto simp: has_column_def get_column_def)

lemma frame_ok_length:
  "frame_ok df \<Longrightarrow> get_column df c = Inr v \<Longrightarrow> length v = frame_len df"
  by (auto simp: frame_ok_def get_column_def list_all_iff split: option.splits dest!: map_of_SomeD)


lemma nth_features_frame:
  assumes "i < length rpm" "length speed = length rpm" "length gear = length rpm"
    "length throttle = length rpm" "length brake = length rpm"
  shows "features_frame rpm speed gear throttle brake ! i =
     \<lparr> RPM = rpm ! i, Speed = speed ! i, nGear = gear ! i, Throttle = throttle ! i,
       nBrake = brake ! i,
       ThrottleRate = (if i = 0 then Fin 0
          else if isna (fabs (fsub (throttle ! i) (throttle ! (i - 1)))) then Fin 0
          else fabs (fsub (throttle ! i) (throttle ! (i - 1)))),
       BrakeIntensity = fmul (brake ! i) (speed ! i),
       GearEfficiency = fdiv (rpm ! i) (fadd (gear ! i) (Fin 1)),
       SpeedVariability = (if isna (pd_std (window 10 speed i)) then Fin 0
          else pd_std (window 10 speed i)),
       Acceleration = (if i = 0 then Fin 0
          else if isna (fsub (speed ! i) (speed ! (i - 1))) then Fin 0
          else fsub (speed ! i) (speed ! (i - 1))) \<rparr>"
proof -
  have tr: "fillna (Fin 0) (map fabs (diff throttle)) ! i =
      (if i = 0 then Fin 0
       else if isna (fabs (fsub (throttle ! i) (throttle ! (i - 1)))) then Fin 0
       else fabs (fsub (throttle ! i) (throttle ! (i - 1))))"
    using assms by (simp add: nth_fillna nth_diff length_diff)
  have ac: "fillna (Fin 0) (diff speed) ! i =
      (if i = 0 then Fin 0
       else if isna (fsub (speed ! i) (speed ! (i - 1))) then Fin 0
       else fsub (speed ! i) (speed ! (i - 1)))"
    using assms by (simp add: nth_fillna nth_diff length_diff)
  have sv: "fillna (Fin 0) (rolling_std 10 1 speed) ! i =
      (if isna (pd_std (window 10 speed i)) then Fin 0 else pd_std (window 10 speed i))"
    using assms by (simp add: nth_fillna length_rolling_std rolling_std_1)
  show ?thesis
    using tr ac sv assms by (simp add: features_frame_def Let_def)
qed

lemma length_features_frame:
  "length (features_frame rpm speed gear throttle brake) = length rpm"
  by (simp add: features_frame_def Let_def)

lemma brake_step_nBrake:
  "brake_step df = Inr df1 \<Longrightarrow> has_column df1 ''nBrake''"
  by (auto simp: brake_step_def has_column_update has_column_delete
      split: if_splits sum.splits)

lemma brake_step_get_required:
  "brake_step df = Inr df1 \<Longrightarrow> c \<in> set required_cols \<Longrightarrow> get_column df1 c = get_column df c"
  by (auto simp: brake_step_def required_cols_def get_column_update get_column_delete
      split: if_splits sum.splits)

lemma length_astype_int: "astype_int b = Inr nb \<Longrightarrow> length nb = length b"
  by (auto simp: astype_int_def split: if_splits)

lemma brake_step_length:
  "frame_ok df \<Longrightarrow> brake_step df = Inr df1 \<Longrightarrow> get_column df1 ''nBrake'' = Inr brake \<Longrightarrow>
   length brake = frame_len df"
  by (auto simp: brake_step_def get_column_update get_column_delete frame_ok_length
      dest!: length_astype_int split: if_splits sum.splits)

lemma process_body_features:
  assumes "brake_step df = Inr df1" "missing_cols df = []"
  shows "\<exists>rpm speed gear throttle brake.
     get_column df ''RPM'' = Inr rpm \<and> get_column df ''Speed'' = Inr speed \<and>
     get_column df ''nGear'' = Inr gear \<and> get_column df ''Throttle'' = Inr throttle \<and>
     get_column df1 ''nBrake'' = Inr brake \<and>
     process_body df code =
       Inr (Some (map (add_metadata code (fst (get_driver_team code)))
                   (dropna (features_frame rpm speed gear throttle brake))),
            snd (get_driver_team code))"
proof -
  from assms(2) have req: "has_column df ''RPM''" "has_column df ''Speed''"
      "has_column df ''nGear''" "has_column df ''Throttle''"
    by (simp_all add: missing_cols_Nil required_cols_def)
  then obtain rpm speed gear throttle where cols:
      "get_column df ''RPM'' = Inr rpm" "get_column df ''Speed'' = Inr speed"
      "get_column df ''nGear'' = Inr gear" "get_column df ''Throttle'' = Inr throttle"
    by (meson get_column_has)
  obtain brake where b: "get_column df1 ''nBrake'' = Inr brake"
    using brake_step_nBrake [OF assms(1)] get_column_has by blast
  have clean: "get_column (drop_optional df1) ''RPM'' = Inr rpm"
      "get_column (drop_optional df1) ''Speed'' = Inr speed"
      "get_column (drop_optional df1) ''nGear'' = Inr gear"
      "get_column (drop_optional df1) ''Throttle'' = Inr throttle"
      "get_column (drop_optional df1) ''nBrake'' = Inr brake"
    using cols b brake_step_get_required [OF assms(1)]
    by (simp_all add: get_column_drop_optional columns_to_drop_def required_cols_def)
  have "process_body df code =
       Inr (Some (map (add_metadata code (fst (get_driver_team code)))
                   (dropna (features_frame rpm speed gear throttle brake))),
            snd (get_driver_team code))"
    using assms clean
    by (simp add: process_body_def Let_def missing_cols_clean split: prod.splits)
  with cols b show ?thesis by blast
qed


lemma add_metadata_fields:
  "RPM (add_metadata d t f) = RPM f" "Speed (add_metadata d t f) = Speed f"
  "nGear (add_metadata d t f) = nGear f" "Throttle (add_metadata d t f) = Throttle f"
  "nBrake (add_metadata d t f) = nBrake f" "ThrottleRate (add_metadata d t f) = ThrottleRate f"
  "BrakeIntensity (add_metadata d t f) = BrakeIntensity f"
  "GearEfficiency (add_metadata d t f) = GearEfficiency f"
  "SpeedVariability (add_metadata d t f) = SpeedVariability f"
  "Acceleration (add_metadata d t f) = Acceleration f"
  "Driver (add_metadata d t f) = d" "Team (add_metadata d t f) = t"
  by (simp_all add: add_metadata_def telemetry_features.defs feature_row.defs)

lemma row_finite_add_metadata: "row_finite (add_metadata d t f) = row_finite f"
  by (simp add: row_finite_def add_metadata_fields)

lemma process_Some:
  assumes "fst (process_driver_telemetry (Some df) code) = Some rows"
  shows "\<exists>df1. brake_step df = Inr df1 \<and> missing_cols df = []"
proof (cases "brake_step df")
  case (Inl e)
  with assms show ?thesis
    by (simp add: process_driver_telemetry_def process_body_def)
next
  case (Inr df1)
  with assms have "missing_cols df = []"
    using process_body_missing [OF _ Inr, of code]
    by (cases "missing_cols df = []") (simp_all add: process_driver_telemetry_def)
  with Inr show ?thesis by simp
qed


lemmas eval_defs = process_driver_telemetry_def process_body_def brake_step_def has_column_def
  get_column_def astype_int_def trunc_def drop_optional_def columns_to_drop_def missing_cols_def
  required_cols_def features_frame_def Let_def diff_def fillna_def rolling_std_def window_def
  pd_std_def observations_def std_real_def mean_real_def dropna_def row_finite_def
  add_metadata_def telemetry_features.defs feature_row.defs get_driver_team_def TEAMS_def
  fsub_def upt_rec frame_ok_def


lemma two_sample_rows:
  "fst (process_driver_telemetry (Some two_sample_frame) ''VER'') =
     Some [first_row, second_row]"
  by (simp add: two_sample_frame_def first_row_def second_row_def eval_defs)


lemma process_messages_missing:
  "missing_cols df \<noteq> [] \<Longrightarrow>
   snd (process_driver_telemetry (Some df) code) =
     (if isl (brake_step df) then [ErrorProcessing code]
      else [MissingColumnsWarning (missing_cols df) code])"
  by (cases "brake_step df")
     (simp_all add: process_driver_telemetry_def process_body_missing,
      simp add: process_body_def)

lemma brake_step_no_brake:
  "\<not> has_column df ''Brake'' \<Longrightarrow> \<not> has_column df ''nBrake'' \<Longrightarrow>
   brake_step df = Inr (AList.update ''nBrake'' (replicate (frame_len df) (Fin 0)) df)"
  by (simp add: brake_step_def)

lemma no_brake_rows:
  assumes "frame_ok df" "missing_cols df = []"
    "\<not> has_column df ''Brake''" "\<not> has_column df ''nBrake''"
  shows "\<exists>rows. fst (process_driver_telemetry (Some df) code) = Some rows \<and>
           list_all (\<lambda>r. nBrake r = Fin 0) rows"
proof -
  let ?df1 = "AList.update ''nBrake'' (replicate (frame_len df) (Fin 0)) df"
  have b: "brake_step df = Inr ?df1" using assms(3,4) by (rule brake_step_no_brake)
  from process_body_features [OF b assms(2), of code] obtain rpm speed gear throttle brake where
    cols: "get_column df ''RPM'' = Inr rpm" "get_column df ''Speed'' = Inr speed"
      "get_column df ''nGear'' = Inr gear" "get_column df ''Throttle'' = Inr throttle"
      "get_column ?df1 ''nBrake'' = Inr brake"
    and body: "process_body df code =
       Inr (Some (map (add_metadata code (fst (get_driver_team code)))
                   (dropna (features_frame rpm speed gear throttle brake))),
            snd (get_driver_team code))"
    by blast
  have brake: "brake = replicate (frame_len df) (Fin 0)"
    using cols(5) by (simp add: get_column_update)
  have len: "length speed = length rpm" "length gear = length rpm"
    "length throttle = length rpm" "length brake = length rpm"
    using cols assms(1) b by (simp_all add: frame_ok_length brake_step_length)
  have "nBrake f = Fin 0" if "f \<in> set (features_frame rpm speed gear throttle brake)" for f
  proof -
    from that obtain i where i: "i < length rpm"
        "f = features_frame rpm speed gear throttle brake ! i"
      by (auto simp: in_set_conv_nth length_features_frame)
    have "nBrake f = brake ! i"
      using i len by (simp only: nth_features_frame) simp
    also have "\<dots> = Fin 0" using i len brake by simp
    finally show ?thesis .
  qed
  then have "list_all (\<lambda>r. nBrake r = Fin 0)
      (map (add_metadata code (fst (get_driver_team code)))
           (dropna (features_frame rpm speed gear throttle brake)))"
    by (simp add: list_all_iff add_metadata_fields dropna_def)
  with body show ?thesis by (simp add: process_driver_telemetry_def)
qed

text \<open>
  C7 (as amended). A table that lacks one of the columns \<open>RPM\<close>, \<open>Speed\<close>, \<open>nGear\<close>,
  \<open>Throttle\<close> gives the result \<open>None\<close>; the missing columns are reported, unless the
  conversion of a \<open>Brake\<close> column to integers raises first, in which case that error is
  reported instead; the loop of the caller reports the driver as failed, adds nothing
  for it and goes on with the other files. A table with the four columns and no brake
  column at all gives rows, each with the brake cell \<open>0\<close>.
\<close>

theorem missing_columns_handling:
  "(missing_cols df \<noteq> [] \<longrightarrow>
      fst (process_driver_telemetry (Some df) code) = None \<and>
      snd (process_driver_telemetry (Some df) code) =
        (if isl (brake_step df) then [ErrorProcessing code]
         else [MissingColumnsWarning (missing_cols df) code]) \<and>
      fst (load_loop (before @ (code, Some df) # after)) = fst (load_loop (before @ after)) \<and>
      FailedToProcess code \<in> set (snd (load_loop (before @ (code, Some df) # after))))
   \<and> (frame_ok df \<and> missing_cols df = [] \<and>
        \<not> has_column df ''Brake'' \<and> \<not> has_column df ''nBrake'' \<longrightarrow>
      (\<exists>rows. fst (process_driver_telemetry (Some df) code) = Some rows \<and>
              list_all (\<lambda>r. nBrake r = Fin 0) rows))"
  using process_missing_None [of df code] process_messages_missing [of df code]
    load_loop_skip [of "Some df" code before after]
    load_loop_skip_reported [of "Some df" code before after]
    no_brake_rows [of df code]
  by blast

text \<open>
  The amended claim C7 at a table without \<open>RPM\<close> and \<open>Throttle\<close>, loaded after a good
  file, and at a table without brake column.
\<close>

theorem missing_columns_handling_witness:
  "missing_cols no_rpm_frame \<noteq> [] \<and>
   process_driver_telemetry (Some no_rpm_frame) ''VER'' =
     (None, [MissingColumnsWarning [''RPM'', ''Throttle''] ''VER'']) \<and>
   fst (load_loop [(''NOR'', Some two_sample_frame), (''VER'', Some no_rpm_frame)]) =
     fst (load_loop [(''NOR'', Some two_sample_frame)]) \<and>
   frame_ok no_brake_frame \<and> missing_cols no_brake_frame = [] \<and>
   \<not> has_column no_brake_frame ''Brake'' \<and> \<not> has_column no_brake_frame ''nBrake'' \<and>
   (\<exists>rows. fst (process_driver_telemetry (Some no_brake_frame) ''VER'') = Some rows \<and>
           list_all (\<lambda>r. nBrake r = Fin 0) rows)"
proof -
  have m: "missing_cols no_rpm_frame = [''RPM'', ''Throttle'']"
    by (simp add: no_rpm_frame_def missing_cols_def required_cols_def has_column_def)
  have b: "\<not> isl (brake_step no_rpm_frame)"
    by (simp add: no_rpm_frame_def brake_step_def has_column_def)
  have h: "frame_ok no_brake_frame \<and> missing_cols no_brake_frame = [] \<and>
      \<not> has_column no_brake_frame ''Brake'' \<and> \<not> has_column no_brake_frame ''nBrake''"
    by (simp add: no_brake_frame_def frame_ok_def missing_cols_def required_cols_def
        has_column_def)
  from missing_columns_handling [of no_rpm_frame "''VER''"
      "[(''NOR'', Some two_sample_frame)]" "[]"]
    missing_columns_handling [of no_brake_frame "''VER''" "[]" "[]"] m b h
  show ?thesis
    by (simp add: prod_eq_iff)
qed

text \<open>
  The claim C7 as stated fails for a table that lacks required columns and has a
  \<open>Brake\<close> column with a missing cell: the conversion raises before the required
  columns are checked, so the missing columns are not what is reported.
\<close>

theorem brake_conversion_counterexample:
  "missing_cols bad_brake_frame = [''RPM'', ''nGear'', ''Throttle''] \<and>
   process_driver_telemetry (Some bad_brake_frame) ''VER'' = (None, [ErrorProcessing ''VER''])"
  by (simp add: bad_brake_frame_def eval_defs)

section \<open>Properties of the sample balancer and cluster engine\<close>

lemma unique_set: "set (unique xs) = set xs"
  by (simp add: unique_def)

lemma unique_distinct: "distinct (unique xs)"
  by (simp add: unique_def)

lemma sample_subset:
  "sample perm n rows = Inr s \<Longrightarrow> set s \<subseteq> set rows"
  by (auto simp: sample_def Let_def list_all_iff split: if_splits)




lemma sample_driver_subset:
  "sample_driver perm data n d = Inr s \<Longrightarrow> set s \<subseteq> {r \<in> set data. Driver r = d}"
  by (auto simp: sample_driver_def Let_def split: if_splits dest!: sample_subset)



lemma sample_drivers_subset:
  "sample_drivers perm data n ds = Inr sampled \<Longrightarrow> set (concat sampled) \<subseteq> set data"
proof (induction ds arbitrary: sampled)
  case Nil
  then show ?case by simp
next
  case (Cons a ds)
  from Cons.prems obtain s rest where
    s: "sample_driver perm data n a = Inr s" and
    rest: "sample_drivers perm data n ds = Inr rest" and
    sampled: "sampled = s # rest"
    by (auto split: sum.splits)
  from sample_driver_subset [OF s] Cons.IH [OF rest] sampled show ?case by auto
qed

lemma with_cluster_fields:
  "Driver (with_cluster r c) = Driver r" "Cluster (with_cluster r c) = c"
  "feature_row.truncate (with_cluster r c) = r"
  by (simp_all add: with_cluster_def feature_row.defs clustered_row.defs)

lemma truncate_map2_with_cluster:
  "length cs = length rs \<Longrightarrow> map feature_row.truncate (map2 with_cluster rs cs) = rs"
  by (induction rs cs rule: list_induct2') (simp_all add: with_cluster_fields)

lemma cluster_track_data_Inr:
  assumes "cluster_track_data perm dbscan data track cap = Inr (out, msgs)"
  shows "\<exists>sampled clusters.
      sample_drivers perm data cap (unique (map Driver data)) = Inr sampled \<and>
      sampled \<noteq> [] \<and> length clusters = length (concat sampled) \<and>
      out = map2 with_cluster (concat sampled) clusters"
  using assms
  by (auto simp: cluster_track_data_def pd_concat_def Let_def
      split: sum.splits if_splits prod.splits)




text \<open>
  C9. Every row of the table returned by \<open>cluster_track_data\<close> is a row of the input,
  of the same driver, with the one new field \<open>Cluster\<close> added: without that field it is
  a row of the input, and no other field is changed.
\<close>

theorem clustering_frame_property:
  assumes "cluster_track_data perm dbscan data track cap = Inr (out, msgs)"
    and "r \<in> set out"
  shows "feature_row.truncate r \<in> set data
       \<and> r = with_cluster (feature_row.truncate r) (Cluster r)
       \<and> Driver r = Driver (feature_row.truncate r)"
proof -
  have "feature_row.truncate r \<in> set data"
  proof -
    from cluster_track_data_Inr [OF assms(1)] obtain sampled clusters where
      s: "sample_drivers perm data cap (unique (map Driver data)) = Inr sampled" and
      len: "length clusters = length (concat sampled)" and
      out: "out = map2 with_cluster (concat sampled) clusters"
      by blast
    have t: "map feature_row.truncate out = concat sampled"
      unfolding out using len by (rule truncate_map2_with_cluster)
    have "feature_row.truncate r \<in> set (concat sampled)"
      using assms(2) t by (metis imageI set_map)
    moreover have "set (concat sampled) \<subseteq> set data"
      using s by (rule sample_drivers_subset)
    ultimately show ?thesis by auto
  qed
  moreover have "r = with_cluster (feature_row.truncate r) (Cluster r)"
    by (simp add: with_cluster_def feature_row.defs clustered_row.defs)
  moreover have "Driver r = Driver (feature_row.truncate r)"
    by (simp add: feature_row.defs)
  ultimately show ?thesis by simp
qed


lemma length_fit_transform: "length (fit_transform m) = length m"
  by (simp add: fit_transform_def)





lemma small_clustering:
  "cluster_track_data reversed_positions one_cluster small_table ''Japan'' 2 =
     Inr (small_clustered, [ClusteringSummary ''Japan'' 1 0])"
  by (simp add: cluster_track_data_def small_table_def small_clustered_def sample_row_def
      unique_def sample_driver_def sample_def reversed_positions_def one_cluster_def
      pd_concat_def Let_def length_fit_transform clustering_params_def
      TRACK_CLUSTERING_PARAMS_def upt_rec)



text \<open>C9 at the same table, for the row of the second driver.\<close>

theorem clustering_frame_property_witness:
  "cluster_track_data reversed_positions one_cluster small_table ''Japan'' 2 =
     Inr (small_clustered, [ClusteringSummary ''Japan'' 1 0]) \<and>
   with_cluster (sample_row ''NOR'' 90 20) 0 \<in> set small_clustered \<and>
   feature_row.truncate (with_cluster (sample_row ''NOR'' 90 20) 0) \<in> set small_table"
proof -
  have r: "with_cluster (sample_row ''NOR'' 90 20) 0 \<in> set small_clustered"
    by (simp add: small_clustered_def)
  from clustering_frame_property [OF small_clustering r] small_clustering r
  show ?thesis by simp
qed

section \<open>Properties of the profile aggregator\<close>

lemma driver_profile_keys: "map fst (driver_profile rows) = profile_keys"
  by (simp add: driver_profile_def Let_def profile_keys_def)

lemma driver_profile_defined: "list_all (\<lambda>(k, v). \<not> isna v) (driver_profile rows)"
  by (simp add: driver_profile_def Let_def list_all_iff split: prod.splits)

lemma build_profiles_elem:
  "(d, p) \<in> set (build_profiles data ds) \<Longrightarrow>
   d \<in> set ds \<and> p = driver_profile (filter (\<lambda>r. Driver r = d) data)"
  by (induction ds) (auto simp: Let_def split: if_splits)

lemma build_profiles_map_of:
  "map_of (build_profiles data ds) d =
     (if d \<in> set ds \<and> filter (\<lambda>r. Driver r = d) data \<noteq> []
      then Some (driver_profile (filter (\<lambda>r. Driver r = d) data)) else None)"
  by (induction ds) (auto simp: Let_def)

lemma build_profiles_drivers:
  "map fst (build_profiles data ds) = filter (\<lambda>d. filter (\<lambda>r. Driver r = d) data \<noteq> []) ds"
  by (induction ds) (auto simp: Let_def)

lemma filter_driver_nonempty:
  "filter (\<lambda>r. Driver r = d) data \<noteq> [] \<longleftrightarrow> d \<in> set (map Driver data)"
  by (auto simp: filter_empty_conv)

lemma build_profiles_unique:
  "map fst (build_profiles data (unique (map Driver data))) = unique (map Driver data)"
  by (simp add: build_profiles_drivers filter_driver_nonempty unique_set filter_id_conv)

lemma analyze_profiles:
  "analyze_driving_style_similarity data = Inr ((sm, dm, drivers, profiles), msgs) \<Longrightarrow>
   profiles = build_profiles data (unique (map Driver data)) \<and> drivers = map fst profiles"
  by (auto simp: analyze_driving_style_similarity_def Let_def split: if_splits sum.splits)

lemma process_rows_finite:
  assumes "fst (process_driver_telemetry csv code) = Some rows" "r \<in> set rows"
  shows "row_finite r \<and> Driver r = code"
proof (cases csv)
  case None
  with assms show ?thesis by (simp add: process_driver_telemetry_def)
next
  case (Some df)
  with assms(1) have some: "fst (process_driver_telemetry (Some df) code) = Some rows" by simp
  from process_Some [OF some] obtain df1 where
    b: "brake_step df = Inr df1" and m: "missing_cols df = []" by blast
  from process_body_features [OF b m, of code] obtain rpm speed gear throttle brake where
    body: "process_body df code =
       Inr (Some (map (add_metadata code (fst (get_driver_team code)))
                   (dropna (features_frame rpm speed gear throttle brake))),
            snd (get_driver_team code))"
    by blast
  with some have "rows = map (add_metadata code (fst (get_driver_team code)))
                   (dropna (features_frame rpm speed gear throttle brake))"
    by (simp add: process_driver_telemetry_def)
  with assms(2) show ?thesis
    by (auto simp: dropna_def row_finite_add_metadata add_metadata_fields)
qed

text \<open>
  C1. Every row returned by the feature engineer has ten finite cells (a row with a
  missing or infinite cell is filtered out, none is filled in), and every profile
  returned by \<open>analyze_driving_style_similarity\<close> has the twelve keys, none with a NaN
  value.
\<close>

theorem no_invalid_values:
  "(fst (process_driver_telemetry csv code) = Some rows \<and> r \<in> set rows \<longrightarrow> row_finite r)
   \<and> (analyze_driving_style_similarity data = Inr ((sm, dm, drivers, profiles), msgs)
        \<and> (d, p) \<in> set profiles \<longrightarrow>
        map fst p = profile_keys \<and> length p = 12 \<and> list_all (\<lambda>(k, v). \<not> isna v) p)"
proof -
  have "map fst p = profile_keys \<and> length p = 12 \<and> list_all (\<lambda>(k, v). \<not> isna v) p"
    if "analyze_driving_style_similarity data = Inr ((sm, dm, drivers, profiles), msgs)"
      and "(d, p) \<in> set profiles"
  proof -
    from that analyze_profiles have "(d, p) \<in> set (build_profiles data (unique (map Driver data)))"
      by blast
    then have p: "p = driver_profile (filter (\<lambda>r. Driver r = d) data)"
      by (simp add: build_profiles_elem)
    have "length p = length (map fst p)" by simp
    also have "\<dots> = 12" unfolding p driver_profile_keys by (simp add: profile_keys_def)
    finally show ?thesis
      unfolding p by (simp add: driver_profile_keys driver_profile_defined)
  qed
  then show ?thesis using process_rows_finite by blast
qed

lemma finite_column: "list_all is_finite xs \<Longrightarrow> map Fin (map nan_to_num xs) = xs"
proof (induction xs)
  case Nil
  then show ?case by simp
next
  case (Cons x xs)
  then show ?case by (cases x) simp_all
qed

lemma observations_Fin: "observations (map Fin rs) = map Fin rs"
  by (induction rs) (simp_all add: observations_def)

lemma foldl_fadd_Fin: "foldl fadd (Fin a) (map Fin rs) = Fin (a + sum_list rs)"
  by (induction rs arbitrary: a) (simp_all add: add.assoc)

lemma pd_mean_Fin: "rs \<noteq> [] \<Longrightarrow> pd_mean (map Fin rs) = Fin (mean_real rs)"
  by (simp add: pd_mean_def observations_Fin foldl_fadd_Fin mean_real_def)

lemma finsert_Fin: "finsert (Fin x) (map Fin ys) = map Fin (insort x ys)"
  by (induction ys) auto

lemma fsort_Fin: "fsort (map Fin rs) = map Fin (sort rs)"
  by (induction rs) (simp_all add: fsort_def finsert_Fin sort_key_def)

lemma pd_quantile_Fin:
  assumes "rs \<noteq> []" "0 \<le> q" "q \<le> 1"
  shows "pd_quantile q (map Fin rs) = Fin (percentile q rs)"
proof -
  let ?n = "length rs"
  let ?h = "q * real (?n - 1)"
  have n: "0 < ?n" using assms(1) by simp
  have h: "0 \<le> ?h" "?h \<le> real (?n - 1)"
    using assms(2,3) by (simp_all add: mult_left_le_one_le)
  then have "\<lfloor>?h\<rfloor> \<le> int (?n - 1)" by linarith
  then have lo: "nat \<lfloor>?h\<rfloor> < ?n" using n by linarith
  have hi: "min (nat \<lfloor>?h\<rfloor> + 1) (?n - 1) < ?n" using n by linarith
  have "pd_quantile q (map Fin rs) =
      fadd (map Fin (sort rs) ! nat \<lfloor>?h\<rfloor>)
        (fmul (fsub (map Fin (sort rs) ! min (nat \<lfloor>?h\<rfloor> + 1) (?n - 1))
                    (map Fin (sort rs) ! nat \<lfloor>?h\<rfloor>))
              (Fin (?h - real (nat \<lfloor>?h\<rfloor>))))"
  proof -
    have "sort rs \<noteq> []" using assms(1) by (metis length_sort length_0_conv)
    then show ?thesis
      by (simp add: pd_quantile_def observations_Fin fsort_Fin Let_def)
  qed
  also have "\<dots> = Fin (percentile q rs)"
    using lo hi by (simp only: nth_map length_sort) (simp add: percentile_def Let_def fsub_def)
  finally show ?thesis .
qed

lemma profile_cornering:
  "map_of (driver_profile rows) ''cornering_style'' =
     Some (let low = filter (\<lambda>r. flt (Speed r) (pd_quantile (3 / 10) (map Speed rows))) rows;
               v = (if length low > 0 then pd_mean (map Throttle low)
                    else pd_mean (map Throttle rows))
           in if isna v then Fin 0 else v)"
  by (simp add: driver_profile_def Let_def)

lemma profile_straight_line:
  "map_of (driver_profile rows) ''straight_line_style'' =
     Some (let high = filter (\<lambda>r. fgt (Speed r) (pd_quantile (7 / 10) (map Speed rows))) rows;
               v = (if length high > 0 then pd_mean (map Throttle high)
                    else pd_mean (map Throttle rows))
           in if isna v then Fin 0 else v)"
  by (simp add: driver_profile_def Let_def)

lemma finite_rows_columns:
  assumes "list_all row_finite rows"
  shows "map Speed rows = map Fin (map speed_of rows)"
    and "map Throttle rows = map Fin (map throttle_of rows)"
proof -
  have "list_all is_finite (map Speed rows)" "list_all is_finite (map Throttle rows)"
    using assms by (simp_all add: list_all_iff row_finite_def)
  from this [THEN finite_column] show "map Speed rows = map Fin (map speed_of rows)"
    and "map Throttle rows = map Fin (map throttle_of rows)"
    by (simp_all add: speed_of_def throttle_of_def comp_def)
qed

lemma flt_speed:
  "row_finite r \<Longrightarrow> flt (Speed r) (Fin t) = (speed_of r < t)"
  "row_finite r \<Longrightarrow> fgt (Speed r) (Fin t) = (speed_of r > t)"
  by (cases "Speed r"; simp add: row_finite_def speed_of_def fgt_def)+

lemma filter_finite: "list_all row_finite rows \<Longrightarrow> list_all row_finite (filter P rows)"
  by (simp add: list_all_iff)

lemma profile_cornering_finite:
  assumes "list_all row_finite rows" "rows \<noteq> []"
  shows "lookup (driver_profile rows) ''cornering_style'' =
     Inr (Fin (mean_real (map throttle_of
        (let low = filter (\<lambda>r. speed_of r < percentile (3 / 10) (map speed_of rows)) rows
         in if low = [] then rows else low))))"
proof -
  let ?t = "percentile (3 / 10) (map speed_of rows)"
  let ?low = "filter (\<lambda>r. speed_of r < ?t) rows"
  have q: "pd_quantile (3 / 10) (map Speed rows) = Fin ?t"
    unfolding finite_rows_columns(1) [OF assms(1)]
    by (rule pd_quantile_Fin) (use assms(2) in simp_all)
  have low: "filter (\<lambda>r. flt (Speed r) (Fin ?t)) rows = ?low"
    using assms(1) by (intro filter_cong) (auto simp: list_all_iff flt_speed)
  have m: "pd_mean (map Throttle xs) = Fin (mean_real (map throttle_of xs))"
    if "list_all row_finite xs" "xs \<noteq> []" for xs :: "'a feature_row_scheme list"
    unfolding finite_rows_columns(2) [OF that(1)]
    by (rule pd_mean_Fin) (use that(2) in simp)
  have "list_all row_finite ?low" using assms(1) by (rule filter_finite)
  then show ?thesis
    using assms m [of rows] m [of ?low]
    by (simp add: lookup_def profile_cornering q low Let_def)
qed

lemma profile_straight_line_finite:
  assumes "list_all row_finite rows" "rows \<noteq> []"
  shows "lookup (driver_profile rows) ''straight_line_style'' =
     Inr (Fin (mean_real (map throttle_of
        (let high = filter (\<lambda>r. speed_of r > percentile (7 / 10) (map speed_of rows)) rows
         in if high = [] then rows else high))))"
proof -
  let ?t = "percentile (7 / 10) (map speed_of rows)"
  let ?high = "filter (\<lambda>r. speed_of r > ?t) rows"
  have q: "pd_quantile (7 / 10) (map Speed rows) = Fin ?t"
    unfolding finite_rows_columns(1) [OF assms(1)]
    by (rule pd_quantile_Fin) (use assms(2) in simp_all)
  have high: "filter (\<lambda>r. fgt (Speed r) (Fin ?t)) rows = ?high"
    using assms(1) by (intro filter_cong) (auto simp: list_all_iff flt_speed)
  have m: "pd_mean (map Throttle xs) = Fin (mean_real (map throttle_of xs))"
    if "list_all row_finite xs" "xs \<noteq> []" for xs :: "'a feature_row_scheme list"
    unfolding finite_rows_columns(2) [OF that(1)]
    by (rule pd_mean_Fin) (use that(2) in simp)
  have "list_all row_finite ?high" using assms(1) by (rule filter_finite)
  then show ?thesis
    using assms m [of rows] m [of ?high]
    by (simp add: lookup_def profile_straight_line q high Let_def)
qed

lemma analyze_lookup_profile:
  assumes "analyze_driving_style_similarity data = Inr ((sm, dm, drivers, profiles), msgs)"
    and "d \<in> set (map Driver data)"
  shows "lookup profiles d = Inr (driver_profile (filter (\<lambda>r. Driver r = d) data))"
proof -
  from analyze_profiles [OF assms(1)]
  have "profiles = build_profiles data (unique (map Driver data))" by simp
  then show ?thesis
    using assms(2) filter_driver_nonempty [of d data]
    by (simp add: lookup_def build_profiles_map_of unique_set)
qed

text \<open>
  C5. For a table of rows with finite cells, the profile of a driver has as
  \<open>cornering_style\<close> the mean throttle of the driver's rows whose speed is below the
  30th percentile of the driver's speeds, and the mean throttle of all the driver's rows
  when no row is below it; \<open>straight_line_style\<close> is the same with the rows above the
  70th percentile.
\<close>

theorem cornering_style_fallback:
  assumes "list_all row_finite data"
    and "analyze_driving_style_similarity data = Inr ((sm, dm, drivers, profiles), msgs)"
    and "d \<in> set (map Driver data)"
  shows "\<exists>p. lookup profiles d = Inr p \<and>
     lookup p ''cornering_style'' =
       Inr (Fin (mean_real (map throttle_of
          (let rows = filter (\<lambda>r. Driver r = d) data;
               low = filter (\<lambda>r. speed_of r < percentile (3 / 10) (map speed_of rows)) rows
           in if low = [] then rows else low)))) \<and>
     lookup p ''straight_line_style'' =
       Inr (Fin (mean_real (map throttle_of
          (let rows = filter (\<lambda>r. Driver r = d) data;
               high = filter (\<lambda>r. speed_of r > percentile (7 / 10) (map speed_of rows)) rows
           in if high = [] then rows else high))))"
proof -
  let ?rows = "filter (\<lambda>r. Driver r = d) data"
  have f: "list_all row_finite ?rows" using assms(1) by (rule filter_finite)
  have n: "?rows \<noteq> []" using assms(3) by (simp add: filter_driver_nonempty)
  from analyze_lookup_profile [OF assms(2,3)]
    profile_cornering_finite [OF f n] profile_straight_line_finite [OF f n]
  show ?thesis by (simp add: Let_def)
qed

lemma length_unique: "length (unique xs) = card (set xs)"
  by (metis unique_distinct unique_set distinct_card)

lemma analyze_few_drivers:
  assumes "card (set (map Driver data)) < 2"
  shows "analyze_driving_style_similarity data =
     Inr (([], [], unique (map Driver data),
           build_profiles data (unique (map Driver data))),
          [NotEnoughDriversWarning])"
proof -
  have "length (build_profiles data (unique (map Driver data))) < 2"
    using assms by (metis length_map build_profiles_unique length_unique)
  then show ?thesis
    by (simp add: analyze_driving_style_similarity_def Let_def build_profiles_unique)
qed

text \<open>
  C4. A table with fewer than two drivers gives empty similarity and distance
  matrices, the list of its drivers (none or one) and their profiles, and the warning;
  the result is a value, not an exception.
\<close>

theorem insufficient_data_guard:
  assumes "card (set (map Driver data)) < 2"
  shows "analyze_driving_style_similarity data =
     Inr (([], [], unique (map Driver data),
           build_profiles data (unique (map Driver data))),
          [NotEnoughDriversWarning])
     \<and> map fst (build_profiles data (unique (map Driver data))) = unique (map Driver data)
     \<and> length (unique (map Driver data)) = card (set (map Driver data))"
  using assms by (simp add: analyze_few_drivers build_profiles_unique length_unique)

lemma one_driver_card: "card (set (map Driver one_driver_table)) < 2"
  by (simp add: one_driver_table_def)

lemma one_driver_profile:
  "build_profiles one_driver_table (unique (map Driver one_driver_table)) =
     [(''VER'',
       [(''avg_speed'', Fin 100), (''speed_variability'', Fin 0), (''max_speed'', Fin 100),
        (''throttle_aggression'', Fin 10), (''throttle_smoothness'', Fin 1000),
        (''brake_frequency'', Fin 0), (''brake_intensity'', Fin 0),
        (''gear_efficiency'', Fin 2250), (''acceleration_pattern'', Fin 0),
        (''acceleration_variability'', Fin 0), (''cornering_style'', Fin 10),
        (''straight_line_style'', Fin 10)])]"
  by (simp add: one_driver_table_def sample_row_def unique_def driver_profile_def Let_def
      pd_mean_def pd_std_def pd_max_def pd_quantile_def observations_def fsort_def fsub_def
      fgt_def)

text \<open>
  C4 at a table of one driver, with the profile it returns.
\<close>

theorem insufficient_data_guard_witness:
  "card (set (map Driver one_driver_table)) < 2 \<and>
   analyze_driving_style_similarity one_driver_table =
     Inr (([], [], [''VER''],
           [(''VER'',
             [(''avg_speed'', Fin 100), (''speed_variability'', Fin 0), (''max_speed'', Fin 100),
              (''throttle_aggression'', Fin 10), (''throttle_smoothness'', Fin 1000),
              (''brake_frequency'', Fin 0), (''brake_intensity'', Fin 0),
              (''gear_efficiency'', Fin 2250), (''acceleration_pattern'', Fin 0),
              (''acceleration_variability'', Fin 0), (''cornering_style'', Fin 10),
              (''straight_line_style'', Fin 10)])]),
          [NotEnoughDriversWarning])"
proof -
  have u: "unique (map Driver one_driver_table) = [''VER'']"
    by (simp add: one_driver_table_def sample_row_def unique_def)
  from insufficient_data_guard [OF one_driver_card] one_driver_card one_driver_profile u
  show ?thesis by simp
qed

lemma three_speed_card: "card (set (map Driver three_speed_table)) < 2"
  by (simp add: three_speed_table_def sample_row_def)

lemma three_speed_finite: "list_all row_finite three_speed_table"
  by (simp add: three_speed_table_def sample_row_def row_finite_def)

lemma one_driver_finite: "list_all row_finite one_driver_table"
  by (simp add: one_driver_table_def sample_row_def row_finite_def)

text \<open>
  C5 at a driver with three speeds (one row below the 30th percentile, one above the
  70th) and at a driver with one row (the fallback).
\<close>

theorem cornering_style_fallback_witness:
  "list_all row_finite three_speed_table \<and> ''VER'' \<in> set (map Driver three_speed_table) \<and>
   (\<exists>p. lookup (build_profiles three_speed_table (unique (map Driver three_speed_table)))
           ''VER'' = Inr p \<and>
        lookup p ''cornering_style'' = Inr (Fin 10) \<and>
        lookup p ''straight_line_style'' = Inr (Fin 50)) \<and>
   list_all row_finite one_driver_table \<and> ''VER'' \<in> set (map Driver one_driver_table) \<and>
   (\<exists>p. lookup (build_profiles one_driver_table (unique (map Driver one_driver_table)))
           ''VER'' = Inr p \<and>
        lookup p ''cornering_style'' = Inr (Fin 10) \<and>
        lookup p ''straight_line_style'' = Inr (Fin 10))"
proof -
  have d3: "''VER'' \<in> set (map Driver three_speed_table)"
    by (simp add: three_speed_table_def sample_row_def)
  have d1: "''VER'' \<in> set (map Driver one_driver_table)"
    by (simp add: one_driver_table_def sample_row_def)
  have e3: "(let rows = filter (\<lambda>r. Driver r = ''VER'') three_speed_table;
               low = filter (\<lambda>r. speed_of r < percentile (3 / 10) (map speed_of rows)) rows
           in if low = [] then rows else low) = [sample_row ''VER'' 100 10]"
    by (simp add: three_speed_table_def sample_row_def percentile_def speed_of_def Let_def)
  have f3: "(let rows = filter (\<lambda>r. Driver r = ''VER'') three_speed_table;
               high = filter (\<lambda>r. speed_of r > percentile (7 / 10) (map speed_of rows)) rows
           in if high = [] then rows else high) = [sample_row ''VER'' 120 50]"
    by (simp add: three_speed_table_def sample_row_def percentile_def speed_of_def Let_def)
  have e1: "(let rows = filter (\<lambda>r. Driver r = ''VER'') one_driver_table;
               low = filter (\<lambda>r. speed_of r < percentile (3 / 10) (map speed_of rows)) rows
           in if low = [] then rows else low) = [sample_row ''VER'' 100 10]"
    by (simp add: one_driver_table_def sample_row_def percentile_def speed_of_def Let_def)
  have f1: "(let rows = filter (\<lambda>r. Driver r = ''VER'') one_driver_table;
               high = filter (\<lambda>r. speed_of r > percentile (7 / 10) (map speed_of rows)) rows
           in if high = [] then rows else high) = [sample_row ''VER'' 100 10]"
    by (simp add: one_driver_table_def sample_row_def percentile_def speed_of_def Let_def)
  have m: "mean_real (map throttle_of [sample_row ''VER'' s t]) = t" for s t
    by (simp add: mean_real_def throttle_of_def sample_row_def)
  from cornering_style_fallback
      [OF three_speed_finite analyze_few_drivers [OF three_speed_card] d3]
    cornering_style_fallback
      [OF one_driver_finite analyze_few_drivers [OF one_driver_card] d1]
    three_speed_finite one_driver_finite d3 d1
  show ?thesis
    unfolding e3 f3 e1 f1 m by blast
qed

text \<open>
  C1 at the table of two samples and at the table of one driver.
\<close>

theorem no_invalid_values_witness:
  "fst (process_driver_telemetry (Some two_sample_frame) ''VER'') = Some [first_row, second_row]
   \<and> row_finite second_row
   \<and> analyze_driving_style_similarity one_driver_table =
       Inr (([], [], unique (map Driver one_driver_table),
             build_profiles one_driver_table (unique (map Driver one_driver_table))),
            [NotEnoughDriversWarning])
   \<and> map fst (driver_profile one_driver_table) = profile_keys
   \<and> length (driver_profile one_driver_table) = 12
   \<and> list_all (\<lambda>(k, v). \<not> isna v) (driver_profile one_driver_table)"
proof -
  have r: "second_row \<in> set [first_row, second_row]" by simp
  have p: "(''VER'', driver_profile one_driver_table)
      \<in> set (build_profiles one_driver_table (unique (map Driver one_driver_table)))"
    by (simp add: one_driver_table_def sample_row_def unique_def)
  from no_invalid_values [where csv = "Some two_sample_frame" and code = "''VER''"
      and rows = "[first_row, second_row]" and r = second_row and data = one_driver_table
      and sm = "[]" and dm = "[]" and drivers = "unique (map Driver one_driver_table)"
      and profiles = "build_profiles one_driver_table (unique (map Driver one_driver_table))"
      and msgs = "[NotEnoughDriversWarning]" and d = "''VER''"
      and p = "driver_profile one_driver_table"]
    two_sample_rows r analyze_few_drivers [OF one_driver_card] p
  show ?thesis by blast
qed

section \<open>Properties of the similarity engine\<close>

lemma comprehension_Inr:
  "(\<And>x. x \<in> set xs \<Longrightarrow> f x = Inr (g x)) \<Longrightarrow> comprehension f xs = Inr (map g xs)"
  by (induction xs) simp_all

lemma comprehension_map: "comprehension f (map h xs) = comprehension (\<lambda>x. f (h x)) xs"
  by (induction xs) (simp_all split: sum.splits)

lemma lookup_distinct:
  "distinct (map fst al) \<Longrightarrow> (k, v) \<in> set al \<Longrightarrow> lookup al k = Inr v"
  by (simp add: lookup_def)

lemma comprehension_lookup:
  assumes "distinct (map fst al)"
  shows "comprehension (lookup al) (map fst al) = Inr (map snd al)"
  unfolding comprehension_map
  by (rule comprehension_Inr) (use assms in \<open>auto intro: lookup_distinct\<close>)

lemma distinct_profile_keys: "distinct profile_keys"
  by (simp add: profile_keys_def)

lemma build_profiles_keys:
  "(d, p) \<in> set (build_profiles data ds) \<Longrightarrow> map fst p = profile_keys"
  by (auto dest!: build_profiles_elem simp: driver_profile_keys)

lemma analyze_many_drivers:
  assumes "2 \<le> card (set (map Driver data))"
  shows "analyze_driving_style_similarity data =
     Inr ((cosine_similarity (standardized_profiles (build_profiles data (unique (map Driver data)))),
           euclidean_distances (standardized_profiles (build_profiles data (unique (map Driver data)))),
           unique (map Driver data),
           build_profiles data (unique (map Driver data))),
          [])"
proof -
  let ?ps = "build_profiles data (unique (map Driver data))"
  have drivers: "map fst ?ps = unique (map Driver data)" by (rule build_profiles_unique)
  then have len: "length ?ps = card (set (map Driver data))"
    by (metis length_map length_unique)
  with assms have two: "\<not> length ?ps < 2" by simp
  then obtain d0 p0 rest where ps: "?ps = (d0, p0) # rest"
    by (cases ?ps) auto
  have keys: "map fst (snd (hd ?ps)) = profile_keys"
    using build_profiles_keys [of d0 p0 data "unique (map Driver data)"] ps by simp
  have dist: "distinct (map fst ?ps)" unfolding drivers by (rule unique_distinct)
  have row: "comprehension
        (\<lambda>feature. case lookup ?ps (fst dp) of Inl e \<Rightarrow> Inl e | Inr p \<Rightarrow> lookup p feature)
        profile_keys = Inr (map snd (snd dp))"
    if "dp \<in> set ?ps" for dp
  proof -
    obtain d p where dp: "dp = (d, p)" by (cases dp)
    with that have l: "lookup ?ps d = Inr p" using dist by (simp add: lookup_distinct)
    have k: "map fst p = profile_keys" using that dp by (simp add: build_profiles_keys)
    then have "distinct (map fst p)" by (simp add: distinct_profile_keys)
    from comprehension_lookup [OF this] show ?thesis by (simp add: dp l k)
  qed
  have "comprehension
        (\<lambda>driver. comprehension
           (\<lambda>feature. case lookup ?ps driver of Inl e \<Rightarrow> Inl e | Inr p \<Rightarrow> lookup p feature)
           profile_keys)
        (map fst ?ps) = Inr (map (\<lambda>dp. map snd (snd dp)) ?ps)"
    unfolding comprehension_map by (rule comprehension_Inr) (rule row)
  moreover have "map (map nan_to_num) (map (\<lambda>dp. map snd (snd dp)) ?ps) = profile_matrix ?ps"
    by (simp add: profile_matrix_def comp_def case_prod_beta)
  ultimately show ?thesis
    using two keys drivers
    by (simp add: analyze_driving_style_similarity_def Let_def standardized_profiles_def)
qed

lemma dot_commute: "dot x y = dot y x"
  unfolding dot_def
  by (induction x y rule: list_induct2') (simp_all add: mult.commute)

lemma dot_self_nonneg: "0 \<le> dot x x"
  unfolding dot_def by (induction x) simp_all

lemma dot_self_zero: "dot x x = 0 \<longleftrightarrow> list_all (\<lambda>v. v = 0) x"
proof (induction x)
  case Nil
  show ?case by (simp add: dot_def)
next
  case (Cons a x)
  have "dot (a # x) (a # x) = a * a + dot x x" by (simp add: dot_def)
  moreover have "0 \<le> a * a" by simp
  ultimately show ?case
    using Cons dot_self_nonneg [of x] by (auto simp: add_nonneg_eq_0_iff)
qed

lemma dot_scaled: "dot (map (\<lambda>v. v / c) x) (map (\<lambda>v. v / c) y) = dot x y / (c * c)"
  unfolding dot_def
  by (induction x y rule: list_induct2') (simp_all add: add_divide_distrib)

lemma dot_normalize_self:
  "dot (normalize_row x) (normalize_row x) = (if list_all (\<lambda>v. v = 0) x then 0 else 1)"
proof (cases "dot x x = 0")
  case True
  then show ?thesis
    by (simp add: normalize_row_def Let_def dot_self_zero [symmetric])
next
  case False
  then have "sqrt (dot x x) \<noteq> 0" by simp
  moreover have "sqrt (dot x x) * sqrt (dot x x) = dot x x"
    using dot_self_nonneg [of x] by simp
  ultimately show ?thesis
    using False by (simp add: normalize_row_def Let_def dot_scaled dot_self_zero [symmetric])
qed

lemma cosine_similarity_shape:
  "length (cosine_similarity m) = length m"
  "i < length m \<Longrightarrow> length (cosine_similarity m ! i) = length m"
  by (simp_all add: cosine_similarity_def Let_def)

lemma cosine_similarity_nth:
  "i < length m \<Longrightarrow> j < length m \<Longrightarrow>
   cosine_similarity m ! i ! j = dot (normalize_row (m ! i)) (normalize_row (m ! j))"
  by (simp add: cosine_similarity_def Let_def)

lemma euclidean_distances_shape:
  "length (euclidean_distances m) = length m"
  "i < length m \<Longrightarrow> length (euclidean_distances m ! i) = length m"
  by (simp_all add: euclidean_distances_def)

lemma euclidean_distances_nth:
  "i < length m \<Longrightarrow> j < length m \<Longrightarrow>
   euclidean_distances m ! i ! j =
     (if i = j then 0
      else sqrt (max 0 (dot (m ! i) (m ! i) - 2 * dot (m ! i) (m ! j) + dot (m ! j) (m ! j))))"
  by (simp add: euclidean_distances_def)

lemma euclidean_distances_sym:
  "i < length m \<Longrightarrow> j < length m \<Longrightarrow>
   euclidean_distances m ! i ! j = euclidean_distances m ! j ! i"
proof -
  assume "i < length m" "j < length m"
  moreover have "dot (m ! j) (m ! j) - 2 * dot (m ! j) (m ! i) + dot (m ! i) (m ! i) =
      dot (m ! i) (m ! i) - 2 * dot (m ! i) (m ! j) + dot (m ! j) (m ! j)"
    by (simp add: dot_commute [of "m ! j" "m ! i"])
  ultimately show ?thesis by (simp only: euclidean_distances_nth) auto
qed

lemma length_standardized:
  "length (standardized_profiles ps) = length ps"
  by (simp add: standardized_profiles_def profile_matrix_def length_fit_transform)

text \<open>
  C3 (as amended). For a table with at least two drivers the similarity and the
  distance matrix are square, of the dimension of the number of drivers, and symmetric;
  the diagonal of the distance matrix is \<open>0\<close>; the diagonal entry of the similarity
  matrix is \<open>1\<close> for a driver whose standardized profile is not the zero vector, and
  \<open>0\<close> for a driver whose standardized profile is the zero vector.
\<close>

theorem similarity_matrix_properties:
  assumes "2 \<le> card (set (map Driver data))"
  shows "\<exists>sm dm drivers profiles.
      analyze_driving_style_similarity data = Inr ((sm, dm, drivers, profiles), []) \<and>
      length drivers = card (set (map Driver data)) \<and>
      length profiles = length drivers \<and>
      length sm = length drivers \<and> length dm = length drivers \<and>
      (\<forall>i < length drivers.
         length (sm ! i) = length drivers \<and> length (dm ! i) = length drivers \<and>
         dm ! i ! i = 0 \<and>
         sm ! i ! i =
           (if list_all (\<lambda>v. v = 0) (standardized_profiles profiles ! i) then 0 else 1) \<and>
         (\<forall>j < length drivers. sm ! i ! j = sm ! j ! i \<and> dm ! i ! j = dm ! j ! i))"
proof -
  let ?ps = "build_profiles data (unique (map Driver data))"
  let ?X = "standardized_profiles ?ps"
  have n: "length ?ps = length (unique (map Driver data))"
    by (metis length_map build_profiles_unique)
  have X: "length ?X = length (unique (map Driver data))"
    by (simp add: length_standardized n)
  have "\<forall>i < length (unique (map Driver data)).
         length (cosine_similarity ?X ! i) = length (unique (map Driver data)) \<and>
         length (euclidean_distances ?X ! i) = length (unique (map Driver data)) \<and>
         euclidean_distances ?X ! i ! i = 0 \<and>
         cosine_similarity ?X ! i ! i =
           (if list_all (\<lambda>v. v = 0) (?X ! i) then 0 else 1) \<and>
         (\<forall>j < length (unique (map Driver data)).
            cosine_similarity ?X ! i ! j = cosine_similarity ?X ! j ! i \<and>
            euclidean_distances ?X ! i ! j = euclidean_distances ?X ! j ! i)"
  proof (intro allI impI conjI)
    fix i assume i: "i < length (unique (map Driver data))"
    then have i': "i < length ?X" using X by simp
    show "length (cosine_similarity ?X ! i) = length (unique (map Driver data))"
      using i' X by (simp add: cosine_similarity_shape)
    show "length (euclidean_distances ?X ! i) = length (unique (map Driver data))"
      using i' X by (simp add: euclidean_distances_shape)
    show "euclidean_distances ?X ! i ! i = 0"
      using i' by (simp add: euclidean_distances_nth)
    show "cosine_similarity ?X ! i ! i = (if list_all (\<lambda>v. v = 0) (?X ! i) then 0 else 1)"
      using i' by (simp only: cosine_similarity_nth dot_normalize_self)
    fix j assume "j < length (unique (map Driver data))"
    then have j': "j < length ?X" using X by simp
    show "cosine_similarity ?X ! i ! j = cosine_similarity ?X ! j ! i"
      using i' j' by (simp only: cosine_similarity_nth) (rule dot_commute)
    show "euclidean_distances ?X ! i ! j = euclidean_distances ?X ! j ! i"
      using i' j' by (rule euclidean_distances_sym)
  qed
  then show ?thesis
    using analyze_many_drivers [OF assms] n X
    by (simp add: length_unique cosine_similarity_shape euclidean_distances_shape)
qed

lemmas profile_eval = sample_row_def unique_def driver_profile_def Let_def
  pd_mean_def pd_std_def pd_max_def pd_quantile_def observations_def fsort_def fsub_def
  fgt_def fmax_def

lemma twin_card: "2 \<le> card (set (map Driver twin_table))"
  by (simp add: twin_table_def sample_row_def)

lemma twin_profiles:
  "build_profiles twin_table (unique (map Driver twin_table)) =
     [(''VER'', twin_profile), (''NOR'', twin_profile)]"
  by (simp add: twin_table_def twin_profile_def profile_eval)

lemma twin_standardized:
  "standardized_profiles [(''VER'', twin_profile), (''NOR'', twin_profile)] =
     [replicate 12 0, replicate 12 0]"
  by (simp add: standardized_profiles_def profile_matrix_def twin_profile_def fit_transform_def
      column_of_def mean_real_def variance_def scale_of_def upt_rec numeral_eq_Suc)

text \<open>
  The claim C3 as stated fails for two drivers with the same profile: every column of
  the profile matrix is constant, the standardized profiles are zero vectors, and the
  similarity of a zero vector with itself is \<open>0\<close>, not \<open>1\<close>.
\<close>

theorem identical_drivers_counterexample:
  "analyze_driving_style_similarity twin_table =
     Inr (([[0, 0], [0, 0]], [[0, 0], [0, 0]], [''VER'', ''NOR''],
           [(''VER'', twin_profile), (''NOR'', twin_profile)]), [])"
proof -
  have u: "unique (map Driver twin_table) = [''VER'', ''NOR'']"
    by (simp add: twin_table_def sample_row_def unique_def)
  have c: "cosine_similarity [replicate 12 0, replicate 12 0] = [[0, 0], [0, 0]]"
    by (simp add: cosine_similarity_def normalize_row_def dot_def Let_def numeral_eq_Suc)
  have e: "euclidean_distances [replicate 12 0, replicate 12 0] = [[0, 0], [0, 0]]"
    by (simp add: euclidean_distances_def dot_def upt_rec numeral_eq_Suc)
  show ?thesis
    by (simp only: analyze_many_drivers [OF twin_card] twin_profiles twin_standardized c e)
       (simp only: u)
qed

text \<open>
  The amended claim C3 at a table of two drivers.
\<close>

theorem similarity_matrix_properties_witness:
  "2 \<le> card (set (map Driver pair_table)) \<and>
   (\<exists>sm dm drivers profiles.
      analyze_driving_style_similarity pair_table = Inr ((sm, dm, drivers, profiles), []) \<and>
      length drivers = card (set (map Driver pair_table)) \<and>
      length profiles = length drivers \<and>
      length sm = length drivers \<and> length dm = length drivers \<and>
      (\<forall>i < length drivers.
         length (sm ! i) = length drivers \<and> length (dm ! i) = length drivers \<and>
         dm ! i ! i = 0 \<and>
         sm ! i ! i =
           (if list_all (\<lambda>v. v = 0) (standardized_profiles profiles ! i) then 0 else 1) \<and>
         (\<forall>j < length drivers. sm ! i ! j = sm ! j ! i \<and> dm ! i ! j = dm ! j ! i)))"
proof -
  have c: "2 \<le> card (set (map Driver pair_table))"
    by (simp add: pair_table_def sample_row_def)
  from similarity_matrix_properties [OF c] c show ?thesis by (rule_tac conjI)
qed

lemma pair_card: "2 \<le> card (set (map Driver pair_table))"
  by (simp add: pair_table_def sample_row_def)

lemma pair_profiles_eq:
  "build_profiles pair_table (unique (map Driver pair_table)) = pair_profiles"
  by (simp add: pair_table_def pair_profiles_def profile_eval)

lemma pair_standardized:
  "standardized_profiles pair_profiles =
     [[1, 0, 1, -1, 0, 0, 0, 0, 0, 0, -1, -1], [-1, 0, -1, 1, 0, 0, 0, 0, 0, 0, 1, 1]]"
  by (simp add: standardized_profiles_def profile_matrix_def pair_profiles_def fit_transform_def
      column_of_def mean_real_def variance_def scale_of_def upt_rec numeral_eq_Suc)

lemma pair_cosine:
  "cosine_similarity
     [[1, 0, 1, -1, 0, 0, 0, 0, 0, 0, -1, -1], [-1, 0, -1, 1, 0, 0, 0, 0, 0, 0, 1, 1]] =
   [[1, -1], [-1, 1]]"
  by (simp add: cosine_similarity_def normalize_row_def dot_def Let_def)

text \<open>
  Two drivers with different profiles: after the rescaling the two standardized
  profiles are opposite vectors, and their similarity is \<open>-1\<close>.
\<close>

lemma pair_similarity:
  "map_sum id (\<lambda>res. (fst (fst res), fst (snd (snd (fst res)))))
     (analyze_driving_style_similarity pair_table) = Inr ([[1, -1], [-1, 1]], [''VER'', ''NOR''])"
proof -
  have u: "unique (map Driver pair_table) = [''VER'', ''NOR'']"
    by (simp add: pair_table_def sample_row_def unique_def)
  show ?thesis
    by (simp only: analyze_many_drivers [OF pair_card] pair_profiles_eq pair_standardized
        pair_cosine)
       (simp add: u)
qed

section \<open>Properties of the orchestrator\<close>









section \<open>Properties of the insight reporter\<close>

text \<open>
  C8. The reporter is claimed to identify, for every similarity matrix with at least two
  drivers, the pair of maximal similarity. For two drivers whose similarity is \<open>-1\<close> the
  search keeps its initial state: no comparison exceeds the initial maximum \<open>0\<close>, no pair
  is identified and, after the number of drivers, nothing is reported.
\<close>

theorem most_similar_pair_negative:
  "most_similar_pair [[1, -1], [-1, 1]] [''VER'', ''NOR''] = Inr (0, None)
   \<and> print_analysis_insights [[1, -1], [-1, 1]] [''VER'', ''NOR''] = Inr [DriversAnalyzed 2]"
  by (simp add: most_similar_pair_def print_analysis_insights_def matrix_size_def
      pair_body_def cell_def upt_rec)

end
